theory Spec2Isabelle
  imports Main
begin

section \<open>JavaScript values and string primitives used by \<^verbatim>\<open>src/bot.js\<close>\<close>

text \<open>
  Strings are modelled as \<^typ>\<open>string\<close> over the ASCII range: \<^verbatim>\<open>toLowerCase\<close> maps
  \<^verbatim>\<open>A-Z\<close> to \<^verbatim>\<open>a-z\<close> and the white space of \<^verbatim>\<open>trim\<close> and \<^verbatim>\<open>\s\<close> is
  TAB, LF, VT, FF, CR and SPACE. The few non-ASCII characters of the bot's message
  texts are written as their UTF-8 bytes.
\<close>

datatype js_error =
    TypeError string
  | ReferenceError string
  | Error string

definition toLowerChar :: "char \<Rightarrow> char" where
  "toLowerChar c =
     (let n = (of_char c :: nat) in if 65 \<le> n \<and> n \<le> 90 then char_of (n + 32) else c)"

definition toLowerCase :: "string \<Rightarrow> string" where
  "toLowerCase s = map toLowerChar s"

definition is_ws :: "char \<Rightarrow> bool" where
  "is_ws c = (let n = (of_char c :: nat) in (9 \<le> n \<and> n \<le> 13) \<or> n = 32)"

definition trim :: "string \<Rightarrow> string" where
  "trim s = rev (dropWhile is_ws (rev (dropWhile is_ws s)))"

fun startsWith :: "string \<Rightarrow> string \<Rightarrow> bool" where
  "startsWith s [] = True"
| "startsWith [] (q # qs) = False"
| "startsWith (c # cs) (q # qs) = (c = q \<and> startsWith cs qs)"

text \<open>\<^verbatim>\<open>s.includes(q)\<close>: \<open>q\<close> occurs in \<open>s\<close> as a contiguous substring.\<close>

fun str_includes :: "string \<Rightarrow> string \<Rightarrow> bool" where
  "str_includes [] q = (q = [])"
| "str_includes (c # cs) q = (startsWith (c # cs) q \<or> str_includes cs q)"

text \<open>\<^verbatim>\<open>s.split(' ')\<close>: split at every single space, keeping empty pieces.\<close>

fun split_on :: "char \<Rightarrow> string \<Rightarrow> string \<Rightarrow> string list" where
  "split_on d cur [] = [rev cur]"
| "split_on d cur (c # cs) =
     (if c = d then rev cur # split_on d [] cs else split_on d (c # cur) cs)"

definition split_space :: "string \<Rightarrow> string list" where
  "split_space s = split_on (CHR '' '') [] s"

text \<open>\<^verbatim>\<open>s.split(/\s+/)\<close>: split at every maximal run of white space.\<close>

fun split_runs :: "bool \<Rightarrow> string \<Rightarrow> string \<Rightarrow> string list" where
  "split_runs inws cur [] = [rev cur]"
| "split_runs inws cur (c # cs) =
     (if is_ws c then (if inws then split_runs True cur cs else rev cur # split_runs True [] cs)
      else split_runs False (c # cur) cs)"

definition split_ws :: "string \<Rightarrow> string list" where
  "split_ws s = split_runs False [] s"

fun join_with :: "string \<Rightarrow> string list \<Rightarrow> string" where
  "join_with sep [] = []"
| "join_with sep [x] = x"
| "join_with sep (x # y # ys) = x @ sep @ join_with sep (y # ys)"

text \<open>Decimal rendering of an integer, as \<^verbatim>\<open>Number.prototype.toString\<close> gives it.\<close>

fun digits :: "nat \<Rightarrow> string" where
  "digits n = (if n < 10 then [char_of (48 + n)] else digits (n div 10) @ [char_of (48 + n mod 10)])"

definition show_int :: "int \<Rightarrow> string" where
  "show_int i = (if i < 0 then CHR ''-'' # digits (nat (- i)) else digits (nat i))"

text \<open>
  A cell of the parsed export (\<^verbatim>\<open>XLSX.utils.sheet_to_json(..., {header: 1})\<close>), also after
  its round trip through \<^verbatim>\<open>JSON.stringify\<close>/\<^verbatim>\<open>JSON.parse\<close> in the session store:
  a string, a number, or nothing (a hole of the array, \<^verbatim>\<open>undefined\<close>, stored as
  \<^verbatim>\<open>null\<close>). The handlers treat \<^verbatim>\<open>undefined\<close> and \<^verbatim>\<open>null\<close> alike
  (\<^verbatim>\<open>?.\<close>, \<^verbatim>\<open>||\<close>, \<^verbatim>\<open>===\<close> against a string).
\<close>

datatype cell = CNull | CStr string | CNum int

type_synonym row = "cell list"

text \<open>\<^verbatim>\<open>r[i]\<close>: reading past the end of a JavaScript array gives \<^verbatim>\<open>undefined\<close>.\<close>

definition at :: "row \<Rightarrow> nat \<Rightarrow> cell" where
  "at r i = (if i < length r then r ! i else CNull)"

text \<open>\<^verbatim>\<open>rows.slice(1)\<close>\<close>

definition slice1 :: "'a list \<Rightarrow> 'a list" where
  "slice1 xs = drop 1 xs"

definition truthy :: "cell \<Rightarrow> bool" where
  "truthy c = (case c of CNull \<Rightarrow> False | CStr s \<Rightarrow> s \<noteq> [] | CNum n \<Rightarrow> n \<noteq> 0)"

text \<open>\<^verbatim>\<open>c?.toString()\<close>, with \<^const>\<open>None\<close> for \<^verbatim>\<open>undefined\<close>.\<close>

definition opt_toString :: "cell \<Rightarrow> string option" where
  "opt_toString c = (case c of CNull \<Rightarrow> None | CStr s \<Rightarrow> Some s | CNum n \<Rightarrow> Some (show_int n))"

text \<open>Array.from(new Set(xs)): first occurrences, in order.\<close>

definition distinct_first :: "'a list \<Rightarrow> 'a list" where
  "distinct_first xs = rev (remdups (rev xs))"

section \<open>Fuzzy agent match (\<^verbatim>\<open>/agent <text>\<close>, bot.js lines 659-674)\<close>

text \<open>
  \<^verbatim>\<open>levenshtein\<close> is the npm package \<^verbatim>\<open>js-levenshtein\<close>: the Levenshtein edit
  distance of two strings (insertion, deletion, substitution, each of cost 1).
\<close>

fun levenshtein :: "string \<Rightarrow> string \<Rightarrow> nat" where
  "levenshtein [] ys = length ys"
| "levenshtein (x # xs) [] = Suc (length xs)"
| "levenshtein (x # xs) (y # ys) =
     min (min (Suc (levenshtein xs (y # ys))) (Suc (levenshtein (x # xs) ys)))
         (levenshtein xs ys + (if x = y then 0 else 1))"

text \<open>\<^verbatim>\<open>a.toLowerCase()\<close> on a cell: only strings have the method.\<close>

definition cell_toLowerCase :: "cell \<Rightarrow> js_error + string" where
  "cell_toLowerCase a =
     (case a of
        CStr s \<Rightarrow> Inr (toLowerCase s)
      | CNum n \<Rightarrow> Inl (TypeError ''a.toLowerCase is not a function'')
      | CNull \<Rightarrow> Inl (TypeError ''Cannot read properties of null (reading 'toLowerCase')''))"

text \<open>
  The loop \<^verbatim>\<open>for (const a of agents) { score = levenshtein(a.toLowerCase(), input);
  if (score < bestScore) { bestScore = score; best = a } }\<close>; \<^verbatim>\<open>bestScore = Infinity\<close>
  is \<^const>\<open>None\<close>.
\<close>

fun best_loop :: "cell list \<Rightarrow> string \<Rightarrow> cell option \<Rightarrow> nat option
    \<Rightarrow> js_error + (cell option \<times> nat option)" where
  "best_loop [] input best bestScore = Inr (best, bestScore)"
| "best_loop (a # as) input best bestScore =
     (case cell_toLowerCase a of
        Inl e \<Rightarrow> Inl e
      | Inr la \<Rightarrow>
          (let score = levenshtein la input in
           if (case bestScore of None \<Rightarrow> True | Some b \<Rightarrow> score < b)
           then best_loop as input (Some a) (Some score)
           else best_loop as input best bestScore))"

text \<open>\<^verbatim>\<open>agents.find(a => a.toLowerCase().includes(input))\<close>\<close>

fun find_substring :: "cell list \<Rightarrow> string \<Rightarrow> js_error + cell option" where
  "find_substring [] input = Inr None"
| "find_substring (a # as) input =
     (case cell_toLowerCase a of
        Inl e \<Rightarrow> Inl e
      | Inr la \<Rightarrow> if str_includes la input then Inr (Some a) else find_substring as input)"

text \<open>
  \<^verbatim>\<open>const agent = (substringMatch && bestScore > 2) ? substringMatch : best\<close>
\<close>

definition bestAgentMatch :: "cell list \<Rightarrow> string \<Rightarrow> js_error + cell option" where
  "bestAgentMatch agents input =
     (case best_loop agents input None None of
        Inl e \<Rightarrow> Inl e
      | Inr (best, bestScore) \<Rightarrow>
          (case find_substring agents input of
             Inl e \<Rightarrow> Inl e
           | Inr substringMatch \<Rightarrow>
               Inr (if (case substringMatch of None \<Rightarrow> False | Some m \<Rightarrow> truthy m)
                       \<and> (case bestScore of None \<Rightarrow> True | Some b \<Rightarrow> 2 < b)
                    then substringMatch else best)))"

section \<open>Status counters (\<^verbatim>\<open>filtered.reduce((acc, r) => ..., {})\<close>)\<close>

text \<open>
  The accumulator is a plain object literal \<^verbatim>\<open>{}\<close>, so \<^verbatim>\<open>acc[st]\<close> reads through the
  prototype chain: for a key that \<^verbatim>\<open>Object.prototype\<close> defines, the read gives the
  inherited member, not \<^verbatim>\<open>undefined\<close>. The own properties are kept in creation
  order; the values that the reducer can store are numbers and strings.
\<close>

definition object_prototype_keys :: "string list" where
  "object_prototype_keys =
     [''constructor'', ''__defineGetter__'', ''__defineSetter__'', ''hasOwnProperty'',
      ''__lookupGetter__'', ''__lookupSetter__'', ''isPrototypeOf'', ''propertyIsEnumerable'',
      ''toString'', ''valueOf'', ''__proto__'', ''toLocaleString'']"

datatype jsval = JNum nat | JStr string

type_synonym counter = "(string \<times> jsval) list"

datatype lookup = Undefined | Own jsval | Inherited string

definition get_prop :: "counter \<Rightarrow> string \<Rightarrow> lookup" where
  "get_prop acc k =
     (case map_of acc k of
        Some v \<Rightarrow> Own v
      | None \<Rightarrow> if k \<in> set object_prototype_keys then Inherited k else Undefined)"

text \<open>
  String conversion of an inherited member: the accessor \<^verbatim>\<open>__proto__\<close> yields
  \<^verbatim>\<open>Object.prototype\<close> itself, the others are native functions
  (\<^verbatim>\<open>constructor\<close> is the function \<^verbatim>\<open>Object\<close>).
\<close>

definition inherited_toString :: "string \<Rightarrow> string" where
  "inherited_toString k =
     (if k = ''__proto__'' then ''[object Object]''
      else ''function '' @ (if k = ''constructor'' then ''Object'' else k) @ ''() { [native code] }'')"

text \<open>\<^verbatim>\<open>(acc[st] || 0) + 1\<close>: addition on a number, concatenation otherwise.\<close>

definition bump_value :: "lookup \<Rightarrow> jsval" where
  "bump_value v =
     (case v of
        Undefined \<Rightarrow> JNum 1
      | Own (JNum n) \<Rightarrow> JNum (n + 1)
      | Own (JStr s) \<Rightarrow> if s = [] then JNum 1 else JStr (s @ ''1'')
      | Inherited k \<Rightarrow> JStr (inherited_toString k @ ''1''))"

fun update_own :: "counter \<Rightarrow> string \<Rightarrow> jsval \<Rightarrow> counter" where
  "update_own [] k v = [(k, v)]"
| "update_own ((k', v') # ps) k v =
     (if k' = k then (k, v) # ps else (k', v') # update_own ps k v)"

text \<open>
  \<^verbatim>\<open>acc[st] = v\<close>: the setter of \<^verbatim>\<open>__proto__\<close> ignores a value that is neither
  an object nor \<^verbatim>\<open>null\<close>; every other key becomes (or stays) an own property.
\<close>

definition set_prop :: "counter \<Rightarrow> string \<Rightarrow> jsval \<Rightarrow> counter" where
  "set_prop acc k v = (if k = ''__proto__'' then acc else update_own acc k v)"

text \<open>
  \<^verbatim>\<open>const st = r[8]?.toString().trim()\<close>, used as a property key: \<^verbatim>\<open>undefined\<close>
  becomes the key \<^verbatim>\<open>"undefined"\<close>.
\<close>

definition status_key :: "row \<Rightarrow> string" where
  "status_key r = (case opt_toString (at r 8) of None \<Rightarrow> ''undefined'' | Some s \<Rightarrow> trim s)"

definition count_step :: "counter \<Rightarrow> row \<Rightarrow> counter" where
  "count_step acc r = (let st = status_key r in set_prop acc st (bump_value (get_prop acc st)))"

definition countByStatus :: "row list \<Rightarrow> counter" where
  "countByStatus filtered = foldl count_step [] filtered"

text \<open>The sum of the counts over all keys, defined when every count is a number.\<close>

fun sum_counts :: "counter \<Rightarrow> nat option" where
  "sum_counts [] = Some 0"
| "sum_counts ((k, JNum n) # ps) = map_option (\<lambda>m. n + m) (sum_counts ps)"
| "sum_counts ((k, JStr s) # ps) = None"

definition jsval_toString :: "jsval \<Rightarrow> string" where
  "jsval_toString v = (case v of JNum n \<Rightarrow> digits n | JStr s \<Rightarrow> s)"

definition jsval_truthy :: "jsval \<Rightarrow> bool" where
  "jsval_truthy v = (case v of JNum n \<Rightarrow> n \<noteq> 0 | JStr s \<Rightarrow> s \<noteq> [])"

text \<open>\<^verbatim>\<open>${counts.ANSWER || 0}\<close> in a template literal.\<close>

definition shown_count :: "counter \<Rightarrow> string \<Rightarrow> string" where
  "shown_count counts k =
     (case get_prop counts k of
        Undefined \<Rightarrow> ''0''
      | Own v \<Rightarrow> if jsval_truthy v then jsval_toString v else ''0''
      | Inherited k' \<Rightarrow> inherited_toString k')"

text \<open>Template-literal rendering of a cell and of a possibly missing string.\<close>

definition cell_toString :: "cell \<Rightarrow> string" where
  "cell_toString c = (case c of CNull \<Rightarrow> ''null'' | CStr s \<Rightarrow> s | CNum n \<Rightarrow> show_int n)"

definition str_or_undefined :: "string option \<Rightarrow> string" where
  "str_or_undefined s = (case s of None \<Rightarrow> ''undefined'' | Some t \<Rightarrow> t)"

text \<open>The statistics text shared by the agent callback and \<^verbatim>\<open>/agent\<close>.\<close>

definition stats_text :: "string \<Rightarrow> string \<Rightarrow> nat \<Rightarrow> counter \<Rightarrow> string" where
  "stats_text agent ds n counts =
     ''<b>Name:</b> <b>'' @ agent @ ''</b>'' @ [CHR 0x0A] @
     ''<b>Date:</b> <b>'' @ ds @ ''</b>'' @ [CHR 0x0A] @
     ''<b>Calls:</b> <b>'' @ digits n @ ''</b>'' @ [CHR 0x0A] @
     ''<b>Answered:</b> <b>'' @ shown_count counts ''ANSWER'' @ ''</b>'' @ [CHR 0x0A] @
     ''<b>Cancelled:</b> <b>'' @ shown_count counts ''CANCEL'' @ ''</b>'' @ [CHR 0x0A] @
     ''<b>Busy:</b> <b>'' @ shown_count counts ''BUSY'' @ ''</b>''"

section \<open>Persistent state (\<^verbatim>\<open>state.js\<close>) and the outside world\<close>

type_synonym chat_id = int

text \<open>
  The session object, as it is stored (\<^verbatim>\<open>JSON.stringify\<close>) and read back: a field is
  \<^const>\<open>None\<close> when the object has no such property (or holds \<^verbatim>\<open>null\<close> or
  \<^verbatim>\<open>undefined\<close>, which no handler tells apart). The handlers write no other field.
\<close>

record chat_session =
  step :: "string option"
  mode :: "string option"
  connectSheet :: "bool option"
  sheetId :: "string option"
  email :: "string option"
  rows :: "row list option"
  dateStr :: "string option"
  selectedTeam :: "string option"

text \<open>The empty object \<^verbatim>\<open>{}\<close>.\<close>

definition empty_session :: chat_session where
  "empty_session = \<lparr> step = None, mode = None, connectSheet = None, sheetId = None,
     email = None, rows = None, dateStr = None, selectedTeam = None \<rparr>"

record flyfone_cred =
  cred_email :: "string option"
  cred_pass :: string

type_synonym jar = "string list"

text \<open>The five tables of \<^verbatim>\<open>state.js\<close>, each keyed by \<^verbatim>\<open>telegram_id\<close>.\<close>

record store =
  flyfone_creds :: "chat_id \<rightharpoonup> flyfone_cred"
  user_tokens :: "chat_id \<rightharpoonup> string"
  sessions :: "chat_id \<rightharpoonup> chat_session"
  sheet_map :: "chat_id \<rightharpoonup> string"
  cookies :: "chat_id \<rightharpoonup> jar"

datatype request =
    GetDashboard
  | GetLogin
  | PostLogin string "string option" string
  | GetExport string

datatype http_result = NetworkError string | Response nat string

datatype sheets_call =
    ValuesClear "string option" string
  | ValuesUpdate "string option" string "row list"
  | ValuesAppend "string option" string "row list"

datatype keyboard =
    NoKeyboard
  | InlineKeyboard "(string \<times> string) list"
  | CalendarKeyboard
  | UrlKeyboard string string

datatype out =
    Reply string keyboard
  | EditMessageText string keyboard
  | AnswerCallbackQuery

text \<open>
  What a handler can read and change: the store, the remote portal (a state \<open>'p\<close> that
  only the portal's answers depend on), and the logs of everything sent out: HTTP
  requests to the portal, calls of the spreadsheet API, chat messages.
\<close>

record 'p world =
  db :: store
  portal :: 'p
  http_log :: "request list"
  sheets_log :: "sheets_call list"
  outbox :: "out list"

text \<open>
  The external collaborators, as the handlers use them:
  \<^item> \<open>serve\<close>: the portal's answer to a request sent with a cookie jar, the jar after
    the answer's cookies, and the portal's next state (redirects that axios follows are
    part of the answer);
  \<^item> \<open>xlsx_read\<close>: \<^verbatim>\<open>XLSX.read\<close> and \<^verbatim>\<open>sheet_to_json\<close> on the first sheet;
  \<^item> \<open>sheets_api\<close>: whether a spreadsheet API call made with the user's refresh token fails;
  \<^item> \<open>now\<close>, \<open>format_ymd\<close>, \<open>default_date\<close>: \<^verbatim>\<open>Date.now()\<close>,
    \<^verbatim>\<open>dayjs(d).format('YYYY-MM-DD')\<close>, and
    \<^verbatim>\<open>dayjs().subtract(1,'day').format('YYYY-MM-DD')\<close>;
  \<^item> \<open>utc_of_local\<close>: the instant of a local time (the host's time zone), as the
    \<^verbatim>\<open>Date\<close> constructor with date components uses it;
  \<^item> \<open>date_constructor\<close>: the engine's \<^verbatim>\<open>new Date(string)\<close>, \<^const>\<open>None\<close> for
    \<^verbatim>\<open>Invalid Date\<close>;
  \<^item> \<open>chrono_parse\<close>: \<^verbatim>\<open>chrono.parse(txt)[0]?.start?.date()\<close>;
  \<^item> \<open>consent_url\<close>: \<^verbatim>\<open>oauth2Client.generateAuthUrl\<close> for a chat;
  \<^item> \<open>get_token\<close>: \<^verbatim>\<open>oauth2Client.getToken(code)\<close>, giving the refresh token if any.
  Dates are milliseconds since the epoch.
\<close>

record 'p env =
  serve :: "'p \<Rightarrow> jar \<Rightarrow> request \<Rightarrow> http_result \<times> jar \<times> 'p"
  xlsx_read :: "string \<Rightarrow> js_error + row list"
  sheets_api :: "string option \<Rightarrow> sheets_call \<Rightarrow> js_error option"
  now :: int
  format_ymd :: "int \<Rightarrow> string"
  default_date :: string
  utc_of_local :: "int \<Rightarrow> int"
  date_constructor :: "string \<Rightarrow> int option"
  chrono_parse :: "string \<Rightarrow> int option"
  consent_url :: "chat_id \<Rightarrow> string"
  get_token :: "string \<Rightarrow> js_error + string option"

type_synonym 'p outcome = "js_error option \<times> 'p world"

subsection \<open>Store operations\<close>

definition getSession :: "'p world \<Rightarrow> chat_id \<Rightarrow> chat_session option" where
  "getSession w c = sessions (db w) c"

definition saveSession :: "chat_id \<Rightarrow> chat_session \<Rightarrow> 'p world \<Rightarrow> 'p world" where
  "saveSession c s w = w\<lparr>db := (db w)\<lparr>sessions := (sessions (db w))(c \<mapsto> s)\<rparr>\<rparr>"

definition deleteSession :: "chat_id \<Rightarrow> 'p world \<Rightarrow> 'p world" where
  "deleteSession c w = w\<lparr>db := (db w)\<lparr>sessions := (sessions (db w))(c := None)\<rparr>\<rparr>"

definition getFlyfoneCreds :: "'p world \<Rightarrow> chat_id \<Rightarrow> flyfone_cred option" where
  "getFlyfoneCreds w c = flyfone_creds (db w) c"

definition saveFlyfoneCreds :: "chat_id \<Rightarrow> string option \<Rightarrow> string \<Rightarrow> 'p world \<Rightarrow> 'p world" where
  "saveFlyfoneCreds c e p w =
     w\<lparr>db := (db w)\<lparr>flyfone_creds :=
        (flyfone_creds (db w))(c \<mapsto> \<lparr>cred_email = e, cred_pass = p\<rparr>)\<rparr>\<rparr>"

definition deleteFlyfoneCreds :: "chat_id \<Rightarrow> 'p world \<Rightarrow> 'p world" where
  "deleteFlyfoneCreds c w = w\<lparr>db := (db w)\<lparr>flyfone_creds := (flyfone_creds (db w))(c := None)\<rparr>\<rparr>"

definition getRefreshToken :: "'p world \<Rightarrow> chat_id \<Rightarrow> string option" where
  "getRefreshToken w c = user_tokens (db w) c"

definition saveRefreshToken :: "chat_id \<Rightarrow> string \<Rightarrow> 'p world \<Rightarrow> 'p world" where
  "saveRefreshToken c t w = w\<lparr>db := (db w)\<lparr>user_tokens := (user_tokens (db w))(c \<mapsto> t)\<rparr>\<rparr>"

definition deleteRefreshToken :: "chat_id \<Rightarrow> 'p world \<Rightarrow> 'p world" where
  "deleteRefreshToken c w = w\<lparr>db := (db w)\<lparr>user_tokens := (user_tokens (db w))(c := None)\<rparr>\<rparr>"

definition getSheet :: "'p world \<Rightarrow> chat_id \<Rightarrow> string option" where
  "getSheet w c = sheet_map (db w) c"

definition saveSheet :: "chat_id \<Rightarrow> string \<Rightarrow> 'p world \<Rightarrow> 'p world" where
  "saveSheet c i w = w\<lparr>db := (db w)\<lparr>sheet_map := (sheet_map (db w))(c \<mapsto> i)\<rparr>\<rparr>"

definition deleteSheet :: "chat_id \<Rightarrow> 'p world \<Rightarrow> 'p world" where
  "deleteSheet c w = w\<lparr>db := (db w)\<lparr>sheet_map := (sheet_map (db w))(c := None)\<rparr>\<rparr>"

text \<open>\<^verbatim>\<open>loadCookies\<close>: a fresh jar when none is stored.\<close>

definition loadCookies :: "'p world \<Rightarrow> chat_id \<Rightarrow> jar" where
  "loadCookies w c = (case cookies (db w) c of None \<Rightarrow> [] | Some j \<Rightarrow> j)"

definition saveCookies :: "chat_id \<Rightarrow> jar \<Rightarrow> 'p world \<Rightarrow> 'p world" where
  "saveCookies c j w = w\<lparr>db := (db w)\<lparr>cookies := (cookies (db w))(c \<mapsto> j)\<rparr>\<rparr>"

definition removeAllCookies :: "chat_id \<Rightarrow> 'p world \<Rightarrow> 'p world" where
  "removeAllCookies c w = w\<lparr>db := (db w)\<lparr>cookies := (cookies (db w))(c := None)\<rparr>\<rparr>"

subsection \<open>Sending\<close>

definition send :: "out \<Rightarrow> 'p world \<Rightarrow> 'p world" where
  "send m w = w\<lparr>outbox := outbox w @ [m]\<rparr>"

definition bold :: "string \<Rightarrow> string" where
  "bold t = ''<b>'' @ t @ ''</b>''"

definition replyBold :: "string \<Rightarrow> keyboard \<Rightarrow> 'p world \<Rightarrow> 'p world" where
  "replyBold t kb w = send (Reply (bold t) kb) w"

definition mode_keyboard :: keyboard where
  "mode_keyboard =
     InlineKeyboard [(''Yes, link a sheet'', ''linkSheet:yes''), (''No, keep in chat'', ''linkSheet:no'')]"

definition truthy_str :: "string option \<Rightarrow> bool" where
  "truthy_str s = (case s of None \<Rightarrow> False | Some t \<Rightarrow> t \<noteq> [])"

section \<open>Portal session client\<close>

text \<open>
  One axios request: the portal answers, the jar takes the answer's cookies, the request
  is logged. The promise rejects on a network failure and on a status that
  \<^verbatim>\<open>validateStatus\<close> refuses.
\<close>

definition http :: "'p env \<Rightarrow> (nat \<Rightarrow> bool) \<Rightarrow> request \<Rightarrow> jar \<Rightarrow> 'p world
    \<Rightarrow> (js_error + nat \<times> string) \<times> jar \<times> 'p world" where
  "http E validateStatus rq j w =
     (case serve E (portal w) j rq of
        (res, j', p') \<Rightarrow>
          (let w' = w\<lparr>portal := p', http_log := http_log w @ [rq]\<rparr> in
           case res of
             NetworkError m \<Rightarrow> (Inl (Error m), j', w')
           | Response st body \<Rightarrow>
               if validateStatus st then (Inr (st, body), j', w')
               else (Inl (Error (''Request failed with status code '' @ digits st)), j', w')))"

definition dq :: char where
  "dq = CHR 0x22"

definition csrf_marker :: string where
  "csrf_marker = ''name='' @ [dq] @ ''csrf_webcall'' @ [dq] @ '' value='' @ [dq]"

text \<open>
  \<^verbatim>\<open>data.match(/name="csrf_webcall" value="([^"]+)"/)\<close>: at the leftmost place where
  the marker is followed by a non-empty run without a double quote and then a double quote,
  the run.
\<close>

definition csrf_here :: "string \<Rightarrow> string option" where
  "csrf_here s =
     (if startsWith s csrf_marker
      then (let rest = drop (length csrf_marker) s;
                v = takeWhile (\<lambda>c. c \<noteq> dq) rest;
                after = dropWhile (\<lambda>c. c \<noteq> dq) rest
            in if v \<noteq> [] \<and> after \<noteq> [] then Some v else None)
      else None)"

fun extract_csrf :: "string \<Rightarrow> string option" where
  "extract_csrf [] = None"
| "extract_csrf (c # cs) =
     (case csrf_here (c # cs) of Some v \<Rightarrow> Some v | None \<Rightarrow> extract_csrf cs)"

definition ensureLoggedIn :: "'p env \<Rightarrow> chat_id \<Rightarrow> string option \<Rightarrow> string \<Rightarrow> jar \<Rightarrow> 'p world
    \<Rightarrow> js_error option \<times> jar \<times> 'p world" where
  "ensureLoggedIn E chatId em password j w =
     (case http E (\<lambda>s. s = 200) GetDashboard j w of
        (Inr probe, j1, w1) \<Rightarrow> (None, j1, w1)
      | (Inl notLoggedIn, j1, w1) \<Rightarrow>
          (case http E (\<lambda>s. s = 200) GetLogin j1 w1 of
             (Inl err, j2, w2) \<Rightarrow> (Some err, j2, w2)
           | (Inr (st, loginPage), j2, w2) \<Rightarrow>
               (case extract_csrf loginPage of
                  None \<Rightarrow> (Some (Error ''CSRF token not found''), j2, w2)
                | Some csrf \<Rightarrow>
                    (case http E (\<lambda>s. s \<in> set [302, 303, 200]) (PostLogin csrf em password) j2 w2 of
                       (Inl err, j3, w3) \<Rightarrow> (Some err, j3, w3)
                     | (Inr (status, body), j3, w3) \<Rightarrow>
                         if status = 200 \<and> str_includes body ''password is incorrect''
                         then (Some (Error ''Incorrect email or password''), j3, w3)
                         else (None, j3, saveCookies chatId j3 w3)))))"

definition downloadFlyfoneReport :: "'p env \<Rightarrow> chat_id \<Rightarrow> string \<Rightarrow> string option \<Rightarrow> string
    \<Rightarrow> jar \<Rightarrow> 'p world \<Rightarrow> (js_error + row list) \<times> 'p world" where
  "downloadFlyfoneReport E chatId ds em password j w =
     (case ensureLoggedIn E chatId em password j w of
        (Some err, j1, w1) \<Rightarrow> (Inl err, w1)
      | (None, j1, w1) \<Rightarrow>
          (case http E (\<lambda>s. 200 \<le> s \<and> s < 300) (GetExport ds) j1 w1 of
             (Inl err, j2, w2) \<Rightarrow> (Inl err, w2)
           | (Inr (status, body), j2, w2) \<Rightarrow>
               if status \<noteq> 200 then (Inl (Error (''Export failed: '' @ digits status)), w2)
               else (xlsx_read E body, w2)))"

section \<open>Spreadsheet sync adapter\<close>

text \<open>
  \<^verbatim>\<open>getSheetsClientForUser\<close> builds a client from whatever refresh token is stored (a
  string or \<^verbatim>\<open>null\<close>, never an object); the API calls are where a missing or revoked
  token fails.
\<close>

definition sheets_call_api :: "'p env \<Rightarrow> chat_id \<Rightarrow> sheets_call \<Rightarrow> 'p world \<Rightarrow> 'p outcome" where
  "sheets_call_api E chatId c w =
     (sheets_api E (getRefreshToken w chatId) c, w\<lparr>sheets_log := sheets_log w @ [c]\<rparr>)"

definition writeToSheet :: "'p env \<Rightarrow> chat_id \<Rightarrow> string option \<Rightarrow> row list \<Rightarrow> bool \<Rightarrow> 'p world
    \<Rightarrow> 'p outcome" where
  "writeToSheet E chatId spreadsheetId values overwrite w =
     (if overwrite
      then (case sheets_call_api E chatId (ValuesClear spreadsheetId ''Sheet1!A1:Z'') w of
              (Some err, w1) \<Rightarrow> (Some err, w1)
            | (None, w1) \<Rightarrow>
                sheets_call_api E chatId (ValuesUpdate spreadsheetId ''Sheet1!A1'' values) w1)
      else sheets_call_api E chatId (ValuesAppend spreadsheetId ''Sheet1!A1'' values) w)"

section \<open>Conversation state machine\<close>

subsection \<open>Dates: \<^verbatim>\<open>dayjs\<close> as \<^verbatim>\<open>bot.js\<close> loads it\<close>

definition is_digit :: "char \<Rightarrow> bool" where
  "is_digit c = (let n = (of_char c :: nat) in 48 \<le> n \<and> n \<le> 57)"

definition nat_of_digits :: "string \<Rightarrow> nat" where
  "nat_of_digits k = foldl (\<lambda>a c. 10 * a + (of_char c - 48)) 0 k"

text \<open>
  Day number (days since 1970-01-01) of a date of the proleptic Gregorian calendar, and
  back. \<^verbatim>\<open>MakeDay\<close> of ECMAScript lets the month index and the day run over: month
  index 12 is January of the next year, day 45 of February is in March or April.
\<close>

definition days_from_civil :: "int \<Rightarrow> int \<Rightarrow> int \<Rightarrow> int" where
  "days_from_civil y m d =
     (let y' = (if m \<le> 2 then y - 1 else y);
          era = y' div 400;
          yoe = y' - era * 400;
          doy = (153 * (m + (if 2 < m then - 3 else 9)) + 2) div 5 + d - 1;
          doe = yoe * 365 + yoe div 4 - yoe div 100 + doy
      in era * 146097 + doe - 719468)"

definition civil_from_days :: "int \<Rightarrow> int \<times> int \<times> int" where
  "civil_from_days n =
     (let z = n + 719468;
          era = z div 146097;
          doe = z - era * 146097;
          yoe = (doe - doe div 1460 + doe div 36524 - doe div 146096) div 365;
          doy = doe - (365 * yoe + yoe div 4 - yoe div 100);
          mp = (5 * doy + 2) div 153;
          d = doy - (153 * mp + 2) div 5 + 1;
          m = (if mp < 10 then mp + 3 else mp - 9)
      in (if m \<le> 2 then yoe + era * 400 + 1 else yoe + era * 400, m, d))"

definition MakeDay :: "int \<Rightarrow> int \<Rightarrow> int \<Rightarrow> int" where
  "MakeDay year monthIndex date =
     days_from_civil (year + monthIndex div 12) (monthIndex mod 12 + 1) 1 + date - 1"

text \<open>
  \<^verbatim>\<open>new Date(y, m, d, h, mi, s, ms)\<close>: a year from 0 to 99 means 1900 + year; the
  components are a local time.
\<close>

definition new_Date :: "'p env \<Rightarrow> int \<Rightarrow> int \<Rightarrow> int \<Rightarrow> int \<Rightarrow> int \<Rightarrow> int \<Rightarrow> int \<Rightarrow> int" where
  "new_Date E y m d h mi sec ms =
     utc_of_local E
       (MakeDay (if 0 \<le> y \<and> y \<le> 99 then 1900 + y else y) m d * 86400000
        + h * 3600000 + mi * 60000 + sec * 1000 + ms)"

text \<open>
  A regular expression that is a sequence of greedy repetitions of character classes,
  anchored at both ends: each item takes as many characters as it can (at most its upper
  bound), and gives them back one by one (down to its lower bound) when the rest fails.
  The result lists the text that each item took.
\<close>

type_synonym rx_item = "(char \<Rightarrow> bool) \<times> nat \<times> nat option"

fun first_some :: "(nat \<Rightarrow> 'a option) \<Rightarrow> nat list \<Rightarrow> 'a option" where
  "first_some f [] = None"
| "first_some f (k # ks) = (case f k of Some r \<Rightarrow> Some r | None \<Rightarrow> first_some f ks)"

definition counts_to_try :: "rx_item \<Rightarrow> string \<Rightarrow> nat list" where
  "counts_to_try it s =
     (case it of (p, lo, hi) \<Rightarrow>
        (let n = length (takeWhile p s);
             top = (case hi of None \<Rightarrow> n | Some h \<Rightarrow> min n h)
         in rev [lo ..< Suc top]))"

primrec match_items :: "rx_item list \<Rightarrow> string \<Rightarrow> string list option" where
  "match_items [] s = (if s = [] then Some [] else None)"
| "match_items (it # its) s =
     first_some (\<lambda>k. map_option (\<lambda>caps. take k s # caps) (match_items its (drop k s)))
       (counts_to_try it s)"

text \<open>
  \<^verbatim>\<open>REGEX_PARSE\<close> of dayjs 1.11:
  \<^verbatim>\<open>/^(\d{4})[-/]?(\d{1,2})?[-/]?(\d{0,2})[Tt\s]*(\d{1,2})?:?(\d{1,2})?:?(\d{1,2})?[.:]?(\d+)?$/\<close>.
  The seven groups are the items 1, 3, 5, 7, 9, 11 and 13. A group that did not take part
  and a group that took nothing are both the empty text here; the parser below treats
  them alike.
\<close>

definition REGEX_PARSE :: "rx_item list" where
  "REGEX_PARSE =
     [(is_digit, 4, Some 4),
      (\<lambda>c. c = CHR ''-'' \<or> c = CHR ''/'', 0, Some 1),
      (is_digit, 0, Some 2),
      (\<lambda>c. c = CHR ''-'' \<or> c = CHR ''/'', 0, Some 1),
      (is_digit, 0, Some 2),
      (\<lambda>c. c = CHR ''T'' \<or> c = CHR ''t'' \<or> is_ws c, 0, None),
      (is_digit, 0, Some 2),
      (\<lambda>c. c = CHR '':'', 0, Some 1),
      (is_digit, 0, Some 2),
      (\<lambda>c. c = CHR '':'', 0, Some 1),
      (is_digit, 0, Some 2),
      (\<lambda>c. c = CHR ''.'' \<or> c = CHR '':'', 0, Some 1),
      (is_digit, 0, None)]"

definition num :: "string \<Rightarrow> int" where
  "num k = int (nat_of_digits k)"

text \<open>
  \<^verbatim>\<open>parseDate\<close> of dayjs on a string: a text that does not end in \<^verbatim>\<open>Z\<close> and that
  \<^verbatim>\<open>REGEX_PARSE\<close> matches becomes
  \<^verbatim>\<open>new Date(d[1], d[2] - 1 || 0, d[3] || 1, d[4] || 0, d[5] || 0, d[6] || 0, ms)\<close> with
  \<^verbatim>\<open>ms = (d[7] || '0').substring(0, 3)\<close>, which is always a valid date; every other text
  goes to \<^verbatim>\<open>new Date(text)\<close>. The value is \<^const>\<open>None\<close> when \<^verbatim>\<open>isValid()\<close> is false.
\<close>

definition dayjs_parse :: "'p env \<Rightarrow> string \<Rightarrow> int option" where
  "dayjs_parse E txt =
     (if txt \<noteq> [] \<and> (last txt = CHR ''Z'' \<or> last txt = CHR ''z'') then date_constructor E txt
      else (case match_items REGEX_PARSE txt of
              None \<Rightarrow> date_constructor E txt
            | Some taken \<Rightarrow>
                (let d = (\<lambda>g. taken ! (2 * (g - 1))) in
                 Some (new_Date E (num (d 1))
                         (if d 2 = [] then 0 else num (d 2) - 1)
                         (if d 3 = [] then 1 else num (d 3))
                         (num (d 4)) (num (d 5)) (num (d 6)) (num (take 3 (d 7)))))))"

text \<open>
  \<^verbatim>\<open>dayjs(txt, format, strict)\<close>. The format and the strict flag are the business of the
  plugin \<^verbatim>\<open>customParseFormat\<close>; \<^verbatim>\<open>bot.js\<close> imports \<^verbatim>\<open>dayjs\<close> and never calls
  \<^verbatim>\<open>dayjs.extend\<close>, and dayjs itself keeps its second argument only when it is an
  object. So the call is \<^verbatim>\<open>dayjs(txt)\<close>.
\<close>

definition dayjs_with_format :: "'p env \<Rightarrow> string \<Rightarrow> string \<Rightarrow> bool \<Rightarrow> int option" where
  "dayjs_with_format E txt fmt strict = dayjs_parse E txt"

text \<open>\<^verbatim>\<open>YYYY-MM-DD\<close> of a day number, zero padded.\<close>

definition pad :: "nat \<Rightarrow> string \<Rightarrow> string" where
  "pad n s = replicate (n - length s) (CHR ''0'') @ s"

definition ymd_of_day :: "int \<Rightarrow> string" where
  "ymd_of_day n =
     (case civil_from_days n of
        (y, m, d) \<Rightarrow> pad 4 (show_int y) @ ''-'' @ pad 2 (show_int m) @ ''-'' @ pad 2 (show_int d))"

subsection \<open>Session guard and date input\<close>

definition withSessionGuard :: "(chat_id \<Rightarrow> 'p world \<Rightarrow> 'p outcome) \<Rightarrow> chat_id \<Rightarrow> 'p world
    \<Rightarrow> 'p outcome" where
  "withSessionGuard handler chatId w =
     (case getSession w chatId of
        None \<Rightarrow>
          (None,
           send (Reply ''<b>Do you want to connect your Google Sheet?</b>'' mode_keyboard)
             (deleteSession chatId
               (send (Reply ''<b>Session expired! Restarting...</b>'' NoKeyboard) w)))
      | Some sess \<Rightarrow> handler chatId w)"

definition parseDateInput :: "'p env \<Rightarrow> string \<Rightarrow> int option" where
  "parseDateInput E input =
     (let txt = toLowerCase (trim input) in
      if txt = ''today'' then Some (now E)
      else if txt = ''yesterday'' then Some (now E - 86400000)
      else (case dayjs_with_format E txt ''YYYY-MM-DD'' True of
              Some d \<Rightarrow> Some d
            | None \<Rightarrow> chrono_parse E txt))"

subsection \<open>\<^verbatim>\<open>/start\<close>, mode choice, \<^verbatim>\<open>/mode\<close>, \<^verbatim>\<open>/logout\<close>, \<^verbatim>\<open>/sheet\<close>\<close>

definition cmd_start :: "chat_id \<Rightarrow> 'p world \<Rightarrow> 'p outcome" where
  "cmd_start chatId w =
     (case getFlyfoneCreds w chatId of
        Some existingCreds \<Rightarrow>
          (None, send (Reply ''<b>Do you want to connect your Google Sheet?</b>'' mode_keyboard) w)
      | None \<Rightarrow>
          (None,
           replyBold ''Enter your Flyfone email:'' NoKeyboard
             (saveSession chatId (empty_session\<lparr>step := Some ''await_email''\<rparr>)
               (deleteFlyfoneCreds chatId (deleteSession chatId w)))))"

text \<open>\<^verbatim>\<open>{...await getSession(chatId)}\<close> and \<^verbatim>\<open>await getSession(chatId) || {}\<close>:
  spreading \<^verbatim>\<open>null\<close> gives the empty object.\<close>

definition session_or_empty :: "'p world \<Rightarrow> chat_id \<Rightarrow> chat_session" where
  "session_or_empty w c = (case getSession w c of None \<Rightarrow> empty_session | Some s \<Rightarrow> s)"

definition cb_linkSheet_yes :: "chat_id \<Rightarrow> 'p world \<Rightarrow> 'p outcome" where
  "cb_linkSheet_yes chatId w =
     (None,
      replyBold (''Please send your Sheet URL using:'' @ [CHR 0x0A, CHR 0x0A]
                 @ '' '' @ [dq] @ ''/sheet + &lt;URL/ID&gt;'' @ [dq]) NoKeyboard
        (send AnswerCallbackQuery
          (saveSession chatId
             ((session_or_empty w chatId)
                \<lparr>connectSheet := Some True, mode := Some ''sheet'', step := Some ''await_sheet_url''\<rparr>)
             w)))"

definition cb_linkSheet_no :: "chat_id \<Rightarrow> 'p world \<Rightarrow> 'p outcome" where
  "cb_linkSheet_no chatId w =
     (None,
      replyBold (''Chat mode enabled!'' @ [CHR 0x0A, CHR 0x0A] @ '' Fetch /fetch to start.'') NoKeyboard
        (send AnswerCallbackQuery
          (saveSession chatId
             (empty_session\<lparr>connectSheet := Some False, mode := Some ''chat''\<rparr>) w)))"

definition cmd_mode :: "string \<Rightarrow> chat_id \<Rightarrow> 'p world \<Rightarrow> 'p outcome" where
  "cmd_mode text chatId w =
     (let creds = getFlyfoneCreds w chatId in
      case drop 1 (split_space text) of
        a # args \<Rightarrow>
          (let m = toLowerCase a in
           if creds = None
           then (None, replyBold ''You are not logged in. Use /start to log in first.'' NoKeyboard w)
           else if m = ''chat''
           then (None, replyBold ''Chat mode enabled!'' NoKeyboard
                   (saveSession chatId
                      ((session_or_empty w chatId)\<lparr>mode := Some ''chat'', connectSheet := Some False\<rparr>) w))
           else if m = ''sheet''
           then (None, replyBold ''Sheet mode enabled!'' NoKeyboard
                   (saveSession chatId
                      ((session_or_empty w chatId)\<lparr>mode := Some ''sheet'', connectSheet := Some True\<rparr>) w))
           else (None, replyBold (''Invalid mode. Use '' @ [dq] @ ''/mode chat'' @ [dq] @ '' or ''
                                  @ [dq] @ ''/mode sheet'' @ [dq]) NoKeyboard w))
      | [] \<Rightarrow>
          if creds = None
          then (None, replyBold ''You are not logged in. Use /start to log in first.'' NoKeyboard w)
          else (None, send (Reply ''<b>Choose your mode:</b>''
                  (InlineKeyboard [(''Sheet mode'', ''linkSheet:yes''), (''Chat mode'', ''linkSheet:no'')])) w))"

text \<open>
  The names that line 14 of \<^verbatim>\<open>bot.js\<close> imports from \<^verbatim>\<open>./state.js\<close>. The module
  declares no function of its own with any of the names of \<^verbatim>\<open>state.js\<close>.
\<close>

definition state_js_imports :: "string list" where
  "state_js_imports =
     [''getRefreshToken'', ''saveRefreshToken'', ''getFlyfoneCreds'', ''deleteFlyfoneCreds'',
      ''getSession'', ''deleteSession'', ''saveFlyfoneCreds'', ''saveSession'', ''saveSheet'',
      ''getSheet'', ''loadCookies'', ''saveCookies'', ''deleteRefreshToken'', ''removeAllCookies'']"

definition logged_out_text :: string where
  "logged_out_text =
     ''<b>You'' @ [CHR 0xE2, CHR 0x80, CHR 0x99] @ ''ve been logged out.</b>'' @ [CHR 0x0A, CHR 0x0A]
     @ ''Your Flyfone credentials and session have been cleared.'' @ [CHR 0x0A]
     @ ''Use /fetch (or /start) again to log back in.''"

text \<open>
  \<^verbatim>\<open>await Promise.all([deleteFlyfoneCreds(chatId), deleteRefreshToken(chatId),
  deleteSession(chatId), removeAllCookies(chatId), deleteSheet(chatId)])\<close>: the elements of
  the array literal are evaluated left to right, so four deletions are started before the
  identifier \<^verbatim>\<open>deleteSheet\<close> is looked up. A name that the module neither imports nor
  declares raises \<^verbatim>\<open>ReferenceError\<close> there, before \<^verbatim>\<open>Promise.all\<close> and
  \<^verbatim>\<open>ctx.reply\<close>; the deletions already started still reach the store.
\<close>

definition cmd_logout :: "chat_id \<Rightarrow> 'p world \<Rightarrow> 'p outcome" where
  "cmd_logout chatId w =
     (let w4 = removeAllCookies chatId
                 (deleteSession chatId (deleteRefreshToken chatId (deleteFlyfoneCreds chatId w)))
      in if ''deleteSheet'' \<in> set state_js_imports
         then (None, send (Reply logged_out_text NoKeyboard) (deleteSheet chatId w4))
         else (Some (ReferenceError ''deleteSheet is not defined''), w4))"

definition is_id_char :: "char \<Rightarrow> bool" where
  "is_id_char c =
     (let n = (of_char c :: nat) in
      (65 \<le> n \<and> n \<le> 90) \<or> (97 \<le> n \<and> n \<le> 122) \<or> (48 \<le> n \<and> n \<le> 57) \<or> n = 95 \<or> n = 45)"

text \<open>\<^verbatim>\<open>input.match(/\/d\/([A-Za-z0-9_-]+)/)\<close>\<close>

fun match_d :: "string \<Rightarrow> string option" where
  "match_d [] = None"
| "match_d (c # cs) =
     (if startsWith (c # cs) ''/d/'' \<and> takeWhile is_id_char (drop 3 (c # cs)) \<noteq> []
      then Some (takeWhile is_id_char (drop 3 (c # cs)))
      else match_d cs)"

definition parse_sheet_id :: "string \<Rightarrow> string option" where
  "parse_sheet_id input =
     (case match_d input of
        Some i \<Rightarrow> Some i
      | None \<Rightarrow> if input \<noteq> [] \<and> list_all is_id_char input then Some input else None)"

text \<open>
  \<^verbatim>\<open>getRefreshToken\<close> returns the token string itself (or \<^verbatim>\<open>null\<close>), so
  \<^verbatim>\<open>creds?.refresh_token\<close> reads a property that a string does not have.
\<close>

definition refresh_token_of :: "string option \<Rightarrow> string option" where
  "refresh_token_of creds = None"

definition sheet_usage_text :: string where
  "sheet_usage_text =
     ''<code>/sheet URL/ID</code>'' @ [CHR 0x0A, CHR 0x0A]
     @ ''Click & copy then replace the &lt;URL/ID&gt; with yours.'' @ [CHR 0x0A]
     @ ''e.g. '' @ [dq] @ ''/sheet https://docs.google.com/spreadsheets/d/xyz...'' @ [dq]"

definition cmd_sheet :: "'p env \<Rightarrow> string \<Rightarrow> chat_id \<Rightarrow> 'p world \<Rightarrow> 'p outcome" where
  "cmd_sheet E text chatId w =
     (let sess = session_or_empty w chatId in
      if connectSheet sess \<noteq> Some True
      then (None, replyBold ''Not in Sheet mode. Use /mode to switch.'' NoKeyboard w)
      else
        (let pieces = split_space text;
             input = trim (if 1 < length pieces then pieces ! 1 else [])
         in case parse_sheet_id input of
              None \<Rightarrow> (None, replyBold sheet_usage_text NoKeyboard w)
            | Some sid \<Rightarrow>
                (let creds = getRefreshToken w chatId;
                     w1 = saveSheet chatId sid (saveSession chatId (sess\<lparr>sheetId := Some sid\<rparr>) w)
                 in if truthy_str (refresh_token_of creds)
                    then (None, replyBold ''Sheet linked! Now use /fetch to export.'' NoKeyboard w1)
                    else (None, send (Reply ''<b>Please authorize access to Google Sheets:</b>''
                                  (UrlKeyboard ''Authorize'' (consent_url E chatId))) w1))))"

subsection \<open>\<^verbatim>\<open>/fetch\<close> and the date picker\<close>

text \<open>
  \<^verbatim>\<open>sess.step = ...\<close> on the result of \<^verbatim>\<open>getSession\<close>: assigning a property of
  \<^verbatim>\<open>null\<close> raises \<^verbatim>\<open>TypeError\<close>.
\<close>

definition beginSheetFlow :: "chat_id \<Rightarrow> 'p world \<Rightarrow> 'p outcome" where
  "beginSheetFlow chatId w =
     (let sess = getSession w chatId; sid = getSheet w chatId in
      if \<not> truthy_str sid then (None, replyBold ''Send /sheet first.'' NoKeyboard w)
      else if getFlyfoneCreds w chatId = None
      then (None, replyBold ''You are not logged in. Use /start to log in.'' NoKeyboard w)
      else (case sess of
              None \<Rightarrow> (Some (TypeError ''Cannot set properties of null (setting 'step')''), w)
            | Some s \<Rightarrow>
                (None, send (Reply ''<b>Please choose a date:</b>'' CalendarKeyboard)
                         (saveSession chatId (s\<lparr>step := Some ''sheet_await_date''\<rparr>) w))))"

definition beginChatFlow :: "chat_id \<Rightarrow> 'p world \<Rightarrow> 'p outcome" where
  "beginChatFlow chatId w =
     (case getSession w chatId of
        None \<Rightarrow> (Some (TypeError ''Cannot set properties of null (setting 'step')''), w)
      | Some s \<Rightarrow>
          (None, replyBold ''Select a date to view in chat:'' CalendarKeyboard
                   (saveSession chatId (s\<lparr>step := Some ''chat_await_date''\<rparr>) w)))"

definition cmd_fetch :: "chat_id \<Rightarrow> 'p world \<Rightarrow> 'p outcome" where
  "cmd_fetch chatId w =
     (let sess = session_or_empty w chatId;
          creds = getFlyfoneCreds w chatId;
          linkedSheet = getSheet w chatId;
          m = (if truthy_str (mode sess) then mode sess
               else if truthy_str linkedSheet then Some ''sheet'' else None)
      in if creds = None then (None, replyBold ''You are not logged in. Use /start.'' NoKeyboard w)
         else if m = None then (None, replyBold ''No mode selected. Use /mode to pick one.'' NoKeyboard w)
         else if m = Some ''sheet''
         then (if \<not> truthy_str linkedSheet
               then (None, replyBold (''Missing sheet. Use '' @ [dq] @ ''/sheet + <URL/ID>'' @ [dq] @ ''.'')
                             NoKeyboard w)
               else beginSheetFlow chatId w)
         else beginChatFlow chatId w)"

definition ellipsis :: string where
  "ellipsis = [CHR 0xE2, CHR 0x80, CHR 0xA6]"

text \<open>\<^verbatim>\<open>r[6] || ''\<close>\<close>

definition cell_or_empty :: "cell \<Rightarrow> cell" where
  "cell_or_empty c = (if truthy c then c else CStr [])"

text \<open>\<^verbatim>\<open>r[6]?.toString() || ''\<close>\<close>

definition team_text :: "row \<Rightarrow> string" where
  "team_text r = (case opt_toString (at r 6) of None \<Rightarrow> [] | Some s \<Rightarrow> s)"

definition team_keyboard :: "string \<Rightarrow> (string \<times> string) list \<Rightarrow> keyboard" where
  "team_keyboard prefix ts = InlineKeyboard (map (\<lambda>(label, key). (label, prefix @ key)) ts)"

text \<open>\<^verbatim>\<open>err.message\<close>\<close>

definition error_message :: "js_error \<Rightarrow> string" where
  "error_message err = (case err of Error m \<Rightarrow> m | TypeError m \<Rightarrow> m | ReferenceError m \<Rightarrow> m)"

definition startFetchFlow :: "'p env \<Rightarrow> string option \<Rightarrow> string \<Rightarrow> string option \<Rightarrow> string
    \<Rightarrow> chat_id \<Rightarrow> 'p world \<Rightarrow> 'p outcome" where
  "startFetchFlow E em pass sid dateArg chatId w =
     (let ds = (if dateArg \<noteq> [] then dateArg else default_date E) in
      case downloadFlyfoneReport E chatId ds em pass (loadCookies w chatId) w of
        (Inl err, w1) \<Rightarrow>
          (None, replyBold
             (if err = Error ''Incorrect email or password''
              then ''Incorrect email or password. Please /fetch again to retry.''
              else ''Error: '' @ error_message err)
             NoKeyboard w1)
      | (Inr rs, w1) \<Rightarrow>
          (let raw = filter (\<lambda>t. t \<noteq> []) (map team_text (slice1 rs)) in
           if truthy_str sid
           then (let teamKeys = distinct_first (map toLowerCase raw);
                     w2 = saveSession chatId
                            ((session_or_empty w1 chatId)\<lparr>rows := Some rs, dateStr := Some ds, sheetId := sid\<rparr>) w1
                 in (None, send (Reply ''<b>Select a team to export:</b>''
                               (team_keyboard ''team:'' (map (\<lambda>k. (k, k)) teamKeys))) w2))
           else (let teams = map (\<lambda>label. (label, toLowerCase label)) (distinct_first raw) in
                 if teams = [] then (None, replyBold (''No teams found on '' @ ds @ ''.'') NoKeyboard w1)
                 else (let w2 = saveSession chatId
                                  ((session_or_empty w1 chatId)\<lparr>rows := Some rs, dateStr := Some ds, sheetId := sid\<rparr>) w1
                       in (None, send (Reply ''<b>Select a team:</b>'' (team_keyboard ''team:'' teams)) w2)))))"

text \<open>
  The two \<^verbatim>\<open>bot.filter\<close> handlers of a date-picker selection, tried in registration
  order. \<^verbatim>\<open>const { email, pass } = await getFlyfoneCreds(chatId)\<close> raises
  \<^verbatim>\<open>TypeError\<close> when no credential is stored.
\<close>

definition calendar_sheet :: "'p env \<Rightarrow> int \<Rightarrow> chat_id \<Rightarrow> 'p world \<Rightarrow> 'p outcome" where
  "calendar_sheet E date chatId w =
     (case getFlyfoneCreds w chatId of
        None \<Rightarrow> (Some (TypeError ''Cannot destructure property 'email' of null''), w)
      | Some creds \<Rightarrow>
          (let ds = format_ymd E date;
               w1 = replyBold (''Exporting calls for '' @ ds @ ellipsis) NoKeyboard w
           in startFetchFlow E (cred_email creds) (cred_pass creds) (getSheet w1 chatId) ds chatId w1))"

definition calendar_chat :: "'p env \<Rightarrow> int \<Rightarrow> chat_id \<Rightarrow> 'p world \<Rightarrow> 'p outcome" where
  "calendar_chat E date chatId w =
     (let sess = session_or_empty w chatId;
          ds = format_ymd E date;
          w1 = replyBold (''Fetching calls for '' @ ds @ ellipsis) NoKeyboard w
      in case getFlyfoneCreds w1 chatId of
           None \<Rightarrow> (Some (TypeError ''Cannot destructure property 'email' of null''), w1)
         | Some creds \<Rightarrow>
             (case downloadFlyfoneReport E chatId ds (cred_email creds) (cred_pass creds)
                     (loadCookies w1 chatId) w1 of
                (Inl err, w2) \<Rightarrow> (Some err, w2)
              | (Inr rs, w2) \<Rightarrow>
                  (let w3 = saveSession chatId (sess\<lparr>rows := Some rs, dateStr := Some ds\<rparr>) w2;
                       teams = distinct_first (map (\<lambda>r. cell_or_empty (at r 6)) (slice1 rs))
                   in (None, send (Reply ''<b>Select a team:</b>''
                                 (team_keyboard ''chat_team:''
                                    (map (\<lambda>t. (cell_toString t, cell_toString t)) teams))) w3))))"

definition on_calendar_date :: "'p env \<Rightarrow> int \<Rightarrow> chat_id \<Rightarrow> 'p world \<Rightarrow> 'p outcome" where
  "on_calendar_date E date chatId w =
     (case getSession w chatId of
        None \<Rightarrow> (None, w)
      | Some s \<Rightarrow>
          if step s = Some ''sheet_await_date'' then calendar_sheet E date chatId w
          else if step s = Some ''chat_await_date'' then calendar_chat E date chatId w
          else (None, w))"

subsection \<open>Chat mode: team and agent selection, \<^verbatim>\<open>/team\<close>, \<^verbatim>\<open>/agent\<close>\<close>

definition destructure_null :: js_error where
  "destructure_null = TypeError ''Cannot destructure property 'rows' of null''"

definition slice_undefined :: js_error where
  "slice_undefined = TypeError ''Cannot read properties of undefined (reading 'slice')''"

text \<open>\<^verbatim>\<open>Array.from(new Set(rows.slice(1).filter(r => r[6] === team).map(r => r[5])))\<close>\<close>

definition agents_of :: "row list \<Rightarrow> string \<Rightarrow> cell list" where
  "agents_of rs team =
     distinct_first (map (\<lambda>r. at r 5) (filter (\<lambda>r. at r 6 = CStr team) (slice1 rs)))"

definition agent_keyboard :: "string \<Rightarrow> cell list \<Rightarrow> keyboard" where
  "agent_keyboard team agents =
     InlineKeyboard (map (\<lambda>a. (cell_toString a, ''chat_agent:'' @ team @ ''|'' @ cell_toString a)) agents)"

definition chat_team_handler :: "string \<Rightarrow> chat_id \<Rightarrow> 'p world \<Rightarrow> 'p outcome" where
  "chat_team_handler team chatId w =
     (case getSession w chatId of
        None \<Rightarrow> (Some destructure_null, w)
      | Some sess \<Rightarrow>
          (let w1 = saveSession chatId ((session_or_empty w chatId)\<lparr>selectedTeam := Some team\<rparr>) w in
           case rows sess of
             None \<Rightarrow> (Some slice_undefined, w1)
           | Some rs \<Rightarrow>
               (None, send (EditMessageText
                  (''<b>Team:</b> '' @ team @ [CHR 0x0A] @ ''<b>Select an agent:</b>'')
                  (agent_keyboard team (agents_of rs team))) w1)))"

definition chat_agent_handler :: "string \<Rightarrow> string \<Rightarrow> chat_id \<Rightarrow> 'p world \<Rightarrow> 'p outcome" where
  "chat_agent_handler team agent chatId w =
     (case getSession w chatId of
        None \<Rightarrow> (Some destructure_null, w)
      | Some sess \<Rightarrow>
          (case rows sess of
             None \<Rightarrow> (Some slice_undefined, w)
           | Some rs \<Rightarrow>
               (let filtered = filter (\<lambda>r. at r 6 = CStr team \<and> at r 5 = CStr agent) (slice1 rs);
                    n = length filtered;
                    counts = countByStatus filtered
                in (None, send (EditMessageText
                      (stats_text agent (str_or_undefined (dateStr sess)) n counts) NoKeyboard) w))))"

definition team_handler :: "chat_id \<Rightarrow> 'p world \<Rightarrow> 'p outcome" where
  "team_handler chatId w =
     (case getSession w chatId of
        None \<Rightarrow>
          (None, replyBold ''This command is only available in chat mode after selecting a date.'' NoKeyboard w)
      | Some sess \<Rightarrow>
          (case rows sess of
             None \<Rightarrow>
               (None, replyBold ''This command is only available in chat mode after selecting a date.'' NoKeyboard w)
           | Some rs \<Rightarrow>
               if mode sess \<noteq> Some ''chat''
               then (None, replyBold ''This command is only available in chat mode after selecting a date.''
                             NoKeyboard w)
               else (let teams = distinct_first (map (\<lambda>r. cell_or_empty (at r 6)) (slice1 rs)) in
                     if teams = [] then (None, replyBold ''No teams found for this date.'' NoKeyboard w)
                     else (None, send (Reply ''<b>Select a team:</b>''
                                   (team_keyboard ''chat_team:''
                                      (map (\<lambda>t. (cell_toString t, cell_toString t)) teams))) w))))"

text \<open>
  \<^verbatim>\<open>ctx.message.text.split(' ').slice(1).join(' ').trim().toLowerCase()\<close>
\<close>

definition agent_input :: "string \<Rightarrow> string" where
  "agent_input text = toLowerCase (trim (join_with '' '' (drop 1 (split_space text))))"

definition agent_handler :: "string \<Rightarrow> chat_id \<Rightarrow> 'p world \<Rightarrow> 'p outcome" where
  "agent_handler text chatId w =
     (let input = agent_input text;
          unavailable = (None, replyBold
             ''This command is only available in chat mode after selecting a team.'' NoKeyboard w)
      in case getSession w chatId of
           None \<Rightarrow> unavailable
         | Some sess \<Rightarrow>
             (case (rows sess, selectedTeam sess) of
                (Some rs, Some team) \<Rightarrow>
                  if mode sess \<noteq> Some ''chat'' \<or> team = [] then unavailable
                  else
                    (let agents = agents_of rs team in
                     if agents = [] then (None, replyBold ''No agents found for this team.'' NoKeyboard w)
                     else if input = []
                     then (None, send (Reply
                             (''<b>Team:</b> '' @ team @ [CHR 0x0A] @ ''<b>Select an agent:</b>'')
                             (agent_keyboard team agents)) w)
                     else
                       (case bestAgentMatch agents input of
                          Inl err \<Rightarrow> (Some err, w)
                        | Inr found \<Rightarrow>
                            (case found of
                               None \<Rightarrow>
                                 (None, replyBold (''No agent found matching '' @ [dq] @ input @ [dq] @ ''.'')
                                          NoKeyboard w)
                             | Some agent \<Rightarrow>
                                 if \<not> truthy agent
                                 then (None, replyBold
                                         (''No agent found matching '' @ [dq] @ input @ [dq] @ ''.'')
                                         NoKeyboard w)
                                 else
                                   (let filtered = filter (\<lambda>r. at r 6 = CStr team \<and> at r 5 = agent) (slice1 rs);
                                        n = length filtered;
                                        counts = countByStatus filtered
                                    in (None, send (Reply
                                          (stats_text (cell_toString agent) (str_or_undefined (dateStr sess))
                                             n counts) NoKeyboard) w)))))
              | _ \<Rightarrow> unavailable))"

subsection \<open>\<^verbatim>\<open>/summary <date> <team>\<close>\<close>

text \<open>
  \<^verbatim>\<open>Object.entries\<close> lists the keys that are array indices first, in ascending numeric
  order, then the other keys in creation order.
\<close>

definition is_index_key :: "string \<Rightarrow> bool" where
  "is_index_key k =
     (case k of
        [] \<Rightarrow> False
      | c # cs \<Rightarrow> list_all is_digit k \<and> (cs = [] \<or> c \<noteq> CHR ''0'') \<and> nat_of_digits k < 4294967295)"

definition entries :: "counter \<Rightarrow> counter" where
  "entries c =
     sort_key (\<lambda>kv. nat_of_digits (fst kv)) (filter (\<lambda>kv. is_index_key (fst kv)) c)
     @ filter (\<lambda>kv. \<not> is_index_key (fst kv)) c"

text \<open>
  \<^verbatim>\<open>.sort((a, b) => b[1] - a[1])\<close>: a stable sort; a difference that is not a number
  counts as 0. (With counts that are not numbers the comparator is not an order and the
  engine's result depends on its algorithm; the model inserts from the left.)
\<close>

definition compare_desc :: "jsval \<Rightarrow> jsval \<Rightarrow> int" where
  "compare_desc a b = (case (a, b) of (JNum x, JNum y) \<Rightarrow> int y - int x | _ \<Rightarrow> 0)"

fun insert_sorted :: "string \<times> jsval \<Rightarrow> counter \<Rightarrow> counter" where
  "insert_sorted x [] = [x]"
| "insert_sorted x (y # ys) =
     (if compare_desc (snd y) (snd x) \<le> 0 then y # insert_sorted x ys else x # y # ys)"

definition js_sort :: "counter \<Rightarrow> counter" where
  "js_sort xs = foldl (\<lambda>acc x. insert_sorted x acc) [] xs"

text \<open>\<^verbatim>\<open>const agent = r[5] || 'Unknown'; acc[agent] = (acc[agent] || 0) + 1\<close>\<close>

definition agent_step :: "counter \<Rightarrow> row \<Rightarrow> counter" where
  "agent_step acc r =
     (let agent = cell_toString (if truthy (at r 5) then at r 5 else CStr ''Unknown'')
      in set_prop acc agent (bump_value (get_prop acc agent)))"

definition bullet :: string where
  "bullet = [CHR 0xE2, CHR 0x80, CHR 0xA2]"

definition summary_usage :: string where
  "summary_usage = ''<b>Usage:</b> <code>/summary &lt;date|today|yesterday&gt; &lt;TeamName&gt;</code>''"

definition summary_handler :: "'p env \<Rightarrow> string \<Rightarrow> chat_id \<Rightarrow> 'p world \<Rightarrow> 'p outcome" where
  "summary_handler E text chatId w =
     (case drop 1 (split_ws text) of
        rawDate # t # ts \<Rightarrow>
          (let team = join_with '' '' (t # ts) in
           case parseDateInput E rawDate of
             None \<Rightarrow>
               (None, replyBold (''Could not understand date '' @ [dq] @ rawDate @ [dq] @ ''.'') NoKeyboard w)
           | Some dateObj \<Rightarrow>
               (let ds = format_ymd E dateObj in
                case getFlyfoneCreds w chatId of
                  None \<Rightarrow>
                    (None, replyBold ''You need to /fetch once (to log in) before using /summary.''
                             NoKeyboard w)
                | Some creds \<Rightarrow>
                    (let w1 = replyBold (''Loading summary for '' @ team @ '' on '' @ ds @ ellipsis)
                                NoKeyboard w
                     in case downloadFlyfoneReport E chatId ds (cred_email creds) (cred_pass creds)
                               (loadCookies w1 chatId) w1 of
                          (Inl err, w2) \<Rightarrow>
                            (None, replyBold (''Error fetching report: '' @ error_message err) NoKeyboard w2)
                        | (Inr rs, w2) \<Rightarrow>
                            (let dataRows = filter (\<lambda>r. cell_toString (cell_or_empty (at r 6)) = team)
                                              (slice1 rs)
                             in if dataRows = []
                                then (None, replyBold
                                        (''No calls found for team '' @ [dq] @ team @ [dq] @ '' on '' @ ds @ ''.'')
                                        NoKeyboard w2)
                                else
                                  (let counts = foldl agent_step [] dataRows;
                                       header = ''<b>Summary for '' @ team @ '' on '' @ ds @ '':</b>'';
                                       lines = map (\<lambda>kv. bullet @ '' <b>'' @ fst kv @ '':</b> ''
                                                          @ jsval_toString (snd kv))
                                                 (js_sort (entries counts))
                                   in (None, send (Reply (join_with [CHR 0x0A] (header # lines))
                                                     NoKeyboard) w2))))))
      | _ \<Rightarrow> (None, send (Reply summary_usage NoKeyboard) w))"

subsection \<open>Credential prompts (\<^verbatim>\<open>message:text\<close>)\<close>

definition on_text :: "'p env \<Rightarrow> string \<Rightarrow> chat_id \<Rightarrow> 'p world \<Rightarrow> 'p outcome" where
  "on_text E text chatId w =
     (case getSession w chatId of
        None \<Rightarrow> (None, w)
      | Some sess \<Rightarrow>
          if step sess = Some ''await_email''
          then (None, replyBold ''Enter your Flyfone password:'' NoKeyboard
                  (saveSession chatId (sess\<lparr>email := Some (trim text), step := Some ''await_pass''\<rparr>) w))
          else if step sess = Some ''await_pass''
          then (let pass = trim text in
                case ensureLoggedIn E chatId (email sess) pass (loadCookies w chatId) w of
                  (None, j, w1) \<Rightarrow>
                    (None, send (Reply ''<b>Login successful! Now choose a mode:</b>'' mode_keyboard)
                       (saveSession chatId (sess\<lparr>step := Some ''await_mode''\<rparr>)
                          (saveFlyfoneCreds chatId (email sess) pass w1)))
                | (Some err, j, w1) \<Rightarrow>
                    (None, replyBold ''Credentials invalid, try your Flyfone email again:'' NoKeyboard
                       (saveSession chatId (sess\<lparr>step := Some ''await_email''\<rparr>) w1)))
          else (None, w))"

subsection \<open>Sheet mode: team selection and write mode\<close>

definition team_choice_handler :: "string \<Rightarrow> chat_id \<Rightarrow> 'p world \<Rightarrow> 'p outcome" where
  "team_choice_handler key chatId w =
     (None,
      send (EditMessageText ''<b>Do you want to overwrite existing data, or append?</b>''
              (InlineKeyboard [(''Overwrite'', ''sheetMode:overwrite''), (''Append'', ''sheetMode:append'')]))
        (saveSession chatId ((session_or_empty w chatId)\<lparr>selectedTeam := Some key\<rparr>) w))"

definition sheet_header :: row where
  "sheet_header =
     map CStr [''Caller'', ''Team'', ''Callee'', ''Status'', ''Duration (s)'', ''Talktime (s)'',
               ''Hangup By'', ''Call Date'', ''Call Time'', ''End Time'']"

text \<open>\<^verbatim>\<open>r => [r[5],r[6],r[7],r[8],r[9],r[10],r[11],r[1],r[2],r[3]]\<close>\<close>

definition sheet_row :: "row \<Rightarrow> row" where
  "sheet_row r = map (at r) [5, 6, 7, 8, 9, 10, 11, 1, 2, 3]"

text \<open>
  \<^verbatim>\<open>rows.slice(1).filter(r => r[6]?.toString().toLowerCase() === selectedTeam)\<close>: both
  sides may be \<^verbatim>\<open>undefined\<close>.
\<close>

definition sheet_filtered :: "row list \<Rightarrow> string option \<Rightarrow> row list" where
  "sheet_filtered rs team =
     filter (\<lambda>r. map_option toLowerCase (opt_toString (at r 6)) = team) (slice1 rs)"

definition sheet_output :: "row list \<Rightarrow> string option \<Rightarrow> row list" where
  "sheet_output rs team = sheet_header # map sheet_row (sheet_filtered rs team)"

definition sheetMode_handler :: "'p env \<Rightarrow> string \<Rightarrow> chat_id \<Rightarrow> 'p world \<Rightarrow> 'p outcome" where
  "sheetMode_handler E m chatId w =
     (case getSession w chatId of
        None \<Rightarrow> (Some destructure_null, w)
      | Some sess \<Rightarrow>
          (case rows sess of
             None \<Rightarrow> (Some slice_undefined, w)
           | Some rs \<Rightarrow>
               (let filtered = sheet_filtered rs (selectedTeam sess);
                    output = sheet_output rs (selectedTeam sess)
                in case writeToSheet E chatId (sheetId sess) output (m = ''overwrite'') w of
                     (None, w1) \<Rightarrow>
                       (None, send (EditMessageText
                          (bold ((if m = ''overwrite'' then ''Overwrote'' else ''Appended'') @ '' ''
                             @ digits (length filtered) @ '' rows for team ''
                             @ [CHR 0xE2, CHR 0x80, CHR 0x9C] @ str_or_undefined (selectedTeam sess)
                             @ [CHR 0xE2, CHR 0x80, CHR 0x9D] @ '' on ''
                             @ str_or_undefined (dateStr sess))) NoKeyboard) w1)
                   | (Some err, w1) \<Rightarrow>
                       (None, send (EditMessageText
                          ([CHR 0xE2, CHR 0x9D, CHR 0x8C] @ '' Write failed: '' @ error_message err)
                          NoKeyboard) w1))))"

subsection \<open>OAuth consent callback and dispatch\<close>

definition oauth2callback :: "'p env \<Rightarrow> string \<Rightarrow> chat_id \<Rightarrow> 'p world \<Rightarrow> 'p outcome" where
  "oauth2callback E code chatId w =
     (case get_token E code of
        Inl err \<Rightarrow> (None, w)
      | Inr tok \<Rightarrow>
          (None, send (Reply ''<b>Authorized! Do /fetch now.</b>'' NoKeyboard)
                   (case tok of
                      Some t \<Rightarrow> if t \<noteq> [] then saveRefreshToken chatId t w else w
                    | None \<Rightarrow> w)))"

text \<open>
  An incoming event, as grammY routes it: a command with the full message text, a button
  press with the groups its pattern captured, a date picked in the calendar, a plain text
  message, and the OAuth redirect with its code.
\<close>

datatype event =
    CmdStart
  | CmdMode string
  | CmdLogout
  | CmdSheet string
  | CmdFetch
  | CmdTeam
  | CmdAgent string
  | CmdSummary string
  | CbLinkSheetYes
  | CbLinkSheetNo
  | CbChatTeam string
  | CbChatAgent string string
  | CbTeam string
  | CbSheetMode string
  | CalendarDate int
  | TextMessage string
  | OAuthCallback string

fun handle :: "'p env \<Rightarrow> event \<Rightarrow> chat_id \<Rightarrow> 'p world \<Rightarrow> 'p outcome" where
  "handle E CmdStart = cmd_start"
| "handle E (CmdMode text) = cmd_mode text"
| "handle E CmdLogout = cmd_logout"
| "handle E (CmdSheet text) = cmd_sheet E text"
| "handle E CmdFetch = cmd_fetch"
| "handle E CmdTeam = withSessionGuard team_handler"
| "handle E (CmdAgent text) = withSessionGuard (agent_handler text)"
| "handle E (CmdSummary text) = withSessionGuard (summary_handler E text)"
| "handle E CbLinkSheetYes = cb_linkSheet_yes"
| "handle E CbLinkSheetNo = cb_linkSheet_no"
| "handle E (CbChatTeam team) = withSessionGuard (chat_team_handler team)"
| "handle E (CbChatAgent team agent) = withSessionGuard (chat_agent_handler team agent)"
| "handle E (CbTeam key) = withSessionGuard (team_choice_handler key)"
| "handle E (CbSheetMode m) = withSessionGuard (sheetMode_handler E m)"
| "handle E (CalendarDate d) = on_calendar_date E d"
| "handle E (TextMessage text) = on_text E text"
| "handle E (OAuthCallback code) = oauth2callback E code"

text \<open>
  A run of the bot: events handled one after the other; an error that a handler raises
  goes to \<^verbatim>\<open>bot.catch\<close>, and the next event starts from the state left behind.
\<close>

fun run :: "('p env \<times> chat_id \<times> event) list \<Rightarrow> 'p world \<Rightarrow> 'p world" where
  "run [] w = w"
| "run ((E, c, ev) # evs) w = run evs (snd (handle E ev c w))"

text \<open>The invariant of a stored session: \<open>rows\<close> and \<open>dateStr\<close> go together.\<close>

definition rows_with_dateStr :: "chat_session \<Rightarrow> bool" where
  "rows_with_dateStr s = ((rows s = None) = (dateStr s = None))"

subsection \<open>Notions used in the statements\<close>

text \<open>Every stored session satisfies the invariant.\<close>

definition sessions_ok :: "'p world \<Rightarrow> bool" where
  "sessions_ok w = (\<forall>c s. getSession w c = Some s \<longrightarrow> rows_with_dateStr s)"

text \<open>The calls that one run of the write-mode handler makes.\<close>

definition sheet_calls :: "'p env \<Rightarrow> string option \<Rightarrow> string \<Rightarrow> string option \<Rightarrow> row list
    \<Rightarrow> sheets_call list" where
  "sheet_calls E tok m sid values =
     (if m = ''overwrite''
      then ValuesClear sid ''Sheet1!A1:Z''
             # (if sheets_api E tok (ValuesClear sid ''Sheet1!A1:Z'') = None
                then [ValuesUpdate sid ''Sheet1!A1'' values] else [])
      else [ValuesAppend sid ''Sheet1!A1'' values])"

text \<open>Login POSTs among the requests sent.\<close>

definition is_login_post :: "request \<Rightarrow> bool" where
  "is_login_post rq = (case rq of PostLogin csrf u p \<Rightarrow> True | _ \<Rightarrow> False)"

subsection \<open>A small world for examples\<close>

text \<open>
  A portal with one account: \<open>True\<close> once logged in. The login page carries the token
  \<^verbatim>\<open>tok\<close>; the export of any day is the sheet \<open>demo_rows\<close>. The host's time zone is
  UTC, and its \<^verbatim>\<open>new Date(string)\<close> knows no text.
\<close>

definition demo_rows :: "row list" where
  "demo_rows =
     [map CStr [''Caller'', ''Date'', ''Time'', ''End'', ''x'', ''Agent'', ''Team'', ''Callee'', ''Status'',
                ''Duration'', ''Talktime'', ''Hangup''],
      [CStr ''1001'', CStr ''2025-07-01'', CStr ''09:00'', CStr ''09:05'', CNull, CStr ''Jane Doe'',
       CStr ''Sales'', CStr ''555'', CStr ''ANSWER'', CNum 300, CNum 280, CStr ''callee''],
      [CStr ''1002'', CStr ''2025-07-01'', CStr ''10:00'', CStr ''10:01'', CNull, CStr ''Jan Lee'',
       CStr ''Sales'', CStr ''556'', CStr ''BUSY'', CNum 60, CNum 0, CStr ''caller'']]"

definition demo_serve :: "bool \<Rightarrow> jar \<Rightarrow> request \<Rightarrow> http_result \<times> jar \<times> bool" where
  "demo_serve logged j rq =
     (case rq of
        GetDashboard \<Rightarrow> (if logged then Response 200 ''dashboard'' else Response 302 [], j, logged)
      | GetLogin \<Rightarrow> (Response 200 (''<input '' @ csrf_marker @ ''tok'' @ [dq] @ ''>''), j, logged)
      | PostLogin csrf u p \<Rightarrow>
          if csrf = ''tok'' \<and> u = Some ''a@b.c'' \<and> p = ''secret''
          then (Response 302 [], ''sid=1'' # j, True)
          else (Response 200 ''The password is incorrect'', j, logged)
      | GetExport d \<Rightarrow> (if logged then Response 200 ''xlsx'' else Response 401 [], j, logged))"

definition demo_env :: "bool env" where
  "demo_env = \<lparr> serve = demo_serve,
      xlsx_read = (\<lambda>body. Inr demo_rows),
      sheets_api = (\<lambda>tok c. None),
      now = 1751328000000,
      format_ymd = (\<lambda>t. ymd_of_day (t div 86400000)),
      default_date = ''2025-06-30'',
      utc_of_local = (\<lambda>t. t),
      date_constructor = (\<lambda>txt. None),
      chrono_parse = (\<lambda>txt. if txt = ''tomorrow'' then Some 1751414400000 else None),
      consent_url = (\<lambda>c. ''https://accounts.google.com/o/oauth2/v2/auth''),
      get_token = (\<lambda>code. Inr (Some ''refresh'')) \<rparr>"

definition empty_store :: store where
  "empty_store = \<lparr> flyfone_creds = Map.empty, user_tokens = Map.empty, sessions = Map.empty,
     sheet_map = Map.empty, cookies = Map.empty \<rparr>"

definition demo_world :: "bool world" where
  "demo_world = \<lparr> db = empty_store, portal = False, http_log = [], sheets_log = [], outbox = [] \<rparr>"

text \<open>Event sequences for the examples: a login, a linked sheet, an export.\<close>

definition setup_sheet :: "(bool env \<times> chat_id \<times> event) list" where
  "setup_sheet =
     [(demo_env, 7, CmdStart), (demo_env, 7, TextMessage ''a@b.c''),
      (demo_env, 7, TextMessage ''secret''), (demo_env, 7, CbLinkSheetYes),
      (demo_env, 7, CmdSheet ''/sheet abc123''), (demo_env, 7, OAuthCallback ''code'')]"

definition setup_export :: "(bool env \<times> chat_id \<times> event) list" where
  "setup_export =
     setup_sheet @ [(demo_env, 7, CmdFetch), (demo_env, 7, CalendarDate 1751328000000),
                    (demo_env, 7, CbTeam ''sales'')]"

definition export_session :: chat_session where
  "export_session = \<lparr> step = Some ''sheet_await_date'', mode = Some ''sheet'',
     connectSheet = Some True, sheetId = Some ''abc123'', email = Some ''a@b.c'',
     rows = Some demo_rows, dateStr = Some ''2025-07-01'', selectedTeam = Some ''sales'' \<rparr>"

text \<open>Two exports whose only data row has a status named like a member of
  \<^verbatim>\<open>Object.prototype\<close>.\<close>

definition proto_rows :: "row list" where
  "proto_rows =
     [map CStr [''Caller'', ''Date'', ''Time'', ''End'', ''x'', ''Agent'', ''Team'', ''Callee'', ''Status''],
      [CStr ''1001'', CStr ''2025-07-01'', CStr ''09:00'', CStr ''09:05'', CNull, CStr ''Jane Doe'',
       CStr ''Sales'', CStr ''555'', CStr ''__proto__'']]"

definition ctor_rows :: "row list" where
  "ctor_rows =
     [map CStr [''Caller'', ''Date'', ''Time'', ''End'', ''x'', ''Agent'', ''Team'', ''Callee'', ''Status''],
      [CStr ''1001'', CStr ''2025-07-01'', CStr ''09:00'', CStr ''09:05'', CNull, CStr ''Jane Doe'',
       CStr ''Sales'', CStr ''555'', CStr ''constructor'']]"

definition setup_login :: "(bool env \<times> chat_id \<times> event) list" where
  "setup_login =
     [(demo_env, 7, CmdStart), (demo_env, 7, TextMessage ''a@b.c''),
      (demo_env, 7, TextMessage ''secret'')]"

text \<open>The session stored after a successful login.\<close>

definition login_session :: chat_session where
  "login_session = empty_session\<lparr>step := Some ''await_mode'', email := Some ''a@b.c''\<rparr>"

text \<open>A chat-mode flow up to the date selection, and the session it leaves.\<close>

definition chat_flow :: "(bool env \<times> chat_id \<times> event) list" where
  "chat_flow =
     setup_login @ [(demo_env, 7, CbLinkSheetNo), (demo_env, 7, CmdFetch),
                    (demo_env, 7, CalendarDate 1751328000000)]"

definition chat_flow_session :: chat_session where
  "chat_flow_session = empty_session\<lparr>step := Some ''chat_await_date'', mode := Some ''chat'',
     connectSheet := Some False, rows := Some demo_rows, dateStr := Some ''2025-07-01''\<rparr>"

section \<open>Properties of the fuzzy agent match\<close>

lemma find_substring_strings:
  "find_substring (map CStr names) q =
     Inr (map_option CStr (List.find (\<lambda>a. str_includes (toLowerCase a) q) names))"
  by (induction names) (simp_all add: cell_toLowerCase_def)

lemma best_loop_strings_step:
  "best_loop (map CStr names) q (Some (CStr b)) (Some (levenshtein (toLowerCase b) q)) =
     Inr (Some (CStr (arg_min_list (\<lambda>a. levenshtein (toLowerCase a) q) (b # names))),
          Some (Min ((\<lambda>a. levenshtein (toLowerCase a) q) ` set (b # names))))"
proof (induction names arbitrary: b)
  case Nil
  show ?case by simp
next
  case (Cons x xs)
  let ?d = "\<lambda>a. levenshtein (toLowerCase a) q"
  have m: "?d (arg_min_list ?d (x # xs)) = Min (?d ` set (x # xs))"
    by (rule f_arg_min_list_f) simp
  have mb: "?d (arg_min_list ?d (b # xs)) = Min (?d ` set (b # xs))"
    by (rule f_arg_min_list_f) simp
  show ?case
  proof (cases "?d x < ?d b")
    case True
    have le: "Min (?d ` set (x # xs)) \<le> ?d x" by simp
    have a: "arg_min_list ?d (b # x # xs) = arg_min_list ?d (x # xs)"
      using True le m by (simp add: Let_def)
    have b: "Min (?d ` set (b # x # xs)) = Min (?d ` set (x # xs))"
      using True le by (simp add: min_def)
    show ?thesis using True Cons.IH [of x] a b
      by (simp add: cell_toLowerCase_def Let_def del: arg_min_list.simps)
  next
    case False
    have a: "arg_min_list ?d (b # x # xs) = arg_min_list ?d (b # xs)"
    proof (cases xs)
      case Nil
      then show ?thesis using False by simp
    next
      case (Cons y ys)
      then show ?thesis using False by (auto simp: Let_def)
    qed
    have b: "Min (?d ` set (b # x # xs)) = Min (?d ` set (b # xs))"
      using False by (cases "xs = []") (auto simp: min_def)
    show ?thesis using False Cons.IH [of b] a b
      by (simp add: cell_toLowerCase_def Let_def del: arg_min_list.simps)
  qed
qed

lemma best_loop_strings:
  "names \<noteq> [] \<Longrightarrow>
   best_loop (map CStr names) q None None =
     Inr (Some (CStr (arg_min_list (\<lambda>a. levenshtein (toLowerCase a) q) names)),
          Some (Min ((\<lambda>a. levenshtein (toLowerCase a) q) ` set names)))"
  by (cases names) (simp_all add: cell_toLowerCase_def best_loop_strings_step del: arg_min_list.simps)

lemma arg_min_list_is_first:
  "names \<noteq> [] \<Longrightarrow>
   List.find (\<lambda>a. f a = Min (f ` set names)) names = Some (arg_min_list (f :: 'a \<Rightarrow> nat) names)"
proof (induction f names rule: arg_min_list.induct)
  case (1 f x)
  then show ?case by simp
next
  case (2 f x y zs)
  define M where "M = Min (f ` set (y # zs))"
  have m: "f (arg_min_list f (y # zs)) = M"
    unfolding M_def by (rule f_arg_min_list_f) simp
  have ih: "List.find (\<lambda>a. f a = M) (y # zs) = Some (arg_min_list f (y # zs))"
    unfolding M_def using 2 by blast
  have all: "Min (f ` set (x # y # zs)) = min (f x) M"
    unfolding M_def by simp
  show ?case
  proof (cases "f x \<le> M")
    case True
    then have "List.find (\<lambda>a. f a = min (f x) M) (x # y # zs) = Some x"
      by (simp add: min_def)
    moreover have "arg_min_list f (x # y # zs) = x"
      using True m by (simp add: Let_def)
    ultimately show ?thesis unfolding all by simp
  next
    case False
    then have "List.find (\<lambda>a. f a = min (f x) M) (x # y # zs) = List.find (\<lambda>a. f a = M) (y # zs)"
      by (simp add: min_def)
    moreover have "arg_min_list f (x # y # zs) = arg_min_list f (y # zs)"
      using False m by (simp add: Let_def)
    ultimately show ?thesis unfolding all using ih by simp
  qed
next
  case (3 f)
  then show ?case by simp
qed

lemma find_SomeD: "List.find P xs = Some x \<Longrightarrow> x \<in> set xs \<and> P x"
  by (induction xs) (auto split: if_splits)

lemma empty_substring_match_is_close:
  assumes "List.find (\<lambda>a. str_includes (toLowerCase a) q) names = Some []"
  shows "Min ((\<lambda>a. levenshtein (toLowerCase a) q) ` set names) = 0"
proof -
  from find_SomeD [OF assms] have mem: "[] \<in> set names" and inc: "str_includes (toLowerCase []) q"
    by simp_all
  from inc have "q = []" by (simp add: toLowerCase_def)
  then have "levenshtein (toLowerCase []) q = 0" by (simp add: toLowerCase_def)
  then have "0 \<in> (\<lambda>a. levenshtein (toLowerCase a) q) ` set names"
    using mem by (metis image_eqI)
  then have "Min ((\<lambda>a. levenshtein (toLowerCase a) q) ` set names) \<le> 0"
    by (intro Min_le) simp_all
  then show ?thesis by simp
qed

lemma bestAgentMatch_strings:
  "bestAgentMatch (map CStr names) q =
     (let d = (\<lambda>a. levenshtein (toLowerCase a) q);
          best = List.find (\<lambda>a. d a = Min (d ` set names)) names;
          substringMatch = List.find (\<lambda>a. str_includes (toLowerCase a) q) names
      in Inr (map_option CStr
           (if substringMatch \<noteq> None \<and> 2 < Min (d ` set names) then substringMatch else best)))"
proof (cases "names = []")
  case True
  then show ?thesis by (simp add: bestAgentMatch_def)
next
  case False
  define M where "M = Min ((\<lambda>a. levenshtein (toLowerCase a) q) ` set names)"
  define sub where "sub = List.find (\<lambda>a. str_includes (toLowerCase a) q) names"
  define best where "best = arg_min_list (\<lambda>a. levenshtein (toLowerCase a) q) names"
  have fbest: "List.find (\<lambda>a. levenshtein (toLowerCase a) q = M) names = Some best"
    unfolding M_def best_def using False by (rule arg_min_list_is_first)
  have loop: "best_loop (map CStr names) q None None = Inr (Some (CStr best), Some M)"
    unfolding M_def best_def using False by (rule best_loop_strings)
  have fsub: "find_substring (map CStr names) q = Inr (map_option CStr sub)"
    unfolding sub_def by (rule find_substring_strings)
  have code: "bestAgentMatch (map CStr names) q =
      Inr (if (case sub of None \<Rightarrow> False | Some m \<Rightarrow> m \<noteq> []) \<and> 2 < M
           then map_option CStr sub else Some (CStr best))"
    by (cases sub) (simp_all add: bestAgentMatch_def loop fsub truthy_def)
  have close: "sub = Some [] \<Longrightarrow> M = 0"
    unfolding sub_def M_def by (rule empty_substring_match_is_close)
  have "(if (case sub of None \<Rightarrow> False | Some m \<Rightarrow> m \<noteq> []) \<and> 2 < M
           then map_option CStr sub else Some (CStr best))
      = map_option CStr (if sub \<noteq> None \<and> 2 < M then sub else Some best)"
    using close by (cases sub) auto
  with code have "bestAgentMatch (map CStr names) q =
      Inr (map_option CStr (if sub \<noteq> None \<and> 2 < M then sub
         else List.find (\<lambda>a. levenshtein (toLowerCase a) q = M) names))"
    by (simp only: fbest)
  then show ?thesis
    unfolding Let_def M_def sub_def .
qed

text \<open>
  C4. For every list of candidate agent names and every query text (which the handler has
  trimmed and lowercased, \<open>agent_input\<close>), the match
  computes the Levenshtein distance between the query and each lowercased candidate and
  keeps the first candidate of minimal distance; independently it finds the first candidate
  whose lowercased text contains the query; it returns the substring match when there is
  one and the minimal distance exceeds 2, and the edit-distance best match otherwise (in
  particular whenever the minimal distance is at most 2). With no candidate the result is
  \<^verbatim>\<open>null\<close>, and \<^verbatim>\<open>"jane"\<close> against \<^verbatim>\<open>["Jane Doe","Jan Lee"]\<close> yields
  \<^verbatim>\<open>"Jane Doe"\<close>.
\<close>

theorem bestAgentMatch_resolution:
  "bestAgentMatch [] q = Inr None
   \<and> bestAgentMatch (map CStr names) q =
       (let d = (\<lambda>a. levenshtein (toLowerCase a) q);
            best = List.find (\<lambda>a. d a = Min (d ` set names)) names;
            substringMatch = List.find (\<lambda>a. str_includes (toLowerCase a) q) names
        in Inr (map_option CStr
             (if substringMatch \<noteq> None \<and> 2 < Min (d ` set names) then substringMatch else best)))
   \<and> bestAgentMatch [CStr ''Jane Doe'', CStr ''Jan Lee''] ''jane'' = Inr (Some (CStr ''Jane Doe''))
   \<and> bestAgentMatch [CStr ''Jane Doe'', CStr ''Jan Lee''] (agent_input ''/agent  JANE '') =
       Inr (Some (CStr ''Jane Doe''))"
proof (intro conjI)
  show "bestAgentMatch [] q = Inr None" by (simp add: bestAgentMatch_def)
  show "bestAgentMatch [CStr ''Jane Doe'', CStr ''Jan Lee''] ''jane'' = Inr (Some (CStr ''Jane Doe''))"
    by code_simp
  show "bestAgentMatch [CStr ''Jane Doe'', CStr ''Jan Lee''] (agent_input ''/agent  JANE '') =
       Inr (Some (CStr ''Jane Doe''))"
    by code_simp
qed (rule bestAgentMatch_strings)

section \<open>Reading the state\<close>

lemma getSession_saveSession [simp]:
  "getSession (saveSession c s w) c' = (if c' = c then Some s else getSession w c')"
  by (simp add: getSession_def saveSession_def)

lemma getSession_send [simp]: "getSession (send m w) c = getSession w c"
  by (simp add: getSession_def send_def)

lemma getSession_replyBold [simp]: "getSession (replyBold t kb w) c = getSession w c"
  by (simp add: replyBold_def)

lemma sheets_log_send [simp]: "sheets_log (send m w) = sheets_log w"
  by (simp add: send_def)

lemma sheets_log_replyBold [simp]: "sheets_log (replyBold t kb w) = sheets_log w"
  by (simp add: replyBold_def)

lemma sheets_log_saveSession [simp]: "sheets_log (saveSession c s w) = sheets_log w"
  by (simp add: saveSession_def)

lemma sheets_log_deleteSession [simp]: "sheets_log (deleteSession c w) = sheets_log w"
  by (simp add: deleteSession_def)

section \<open>Mode choice buttons\<close>

text \<open>
  C10. Pressing "No, keep in chat" stores exactly \<^verbatim>\<open>{ connectSheet: false, mode: 'chat' }\<close>
  as the chat's session, whatever was stored before (step, email, sheetId, rows, dateStr and
  selectedTeam are gone); pressing "Yes, link a sheet" sets connectSheet, mode and step and
  keeps every other field of the previous session (of the empty object when none was stored).
\<close>

theorem linkSheet_no_replaces_yes_merges:
  "cb_linkSheet_no c w =
     (None, replyBold (''Chat mode enabled!'' @ [CHR 0x0A, CHR 0x0A] @ '' Fetch /fetch to start.'') NoKeyboard
        (send AnswerCallbackQuery (saveSession c
           \<lparr> step = None, mode = Some ''chat'', connectSheet = Some False, sheetId = None,
             email = None, rows = None, dateStr = None, selectedTeam = None \<rparr> w)))
   \<and> getSession (snd (cb_linkSheet_no c w)) c =
       Some \<lparr> step = None, mode = Some ''chat'', connectSheet = Some False, sheetId = None,
              email = None, rows = None, dateStr = None, selectedTeam = None \<rparr>
   \<and> fst (cb_linkSheet_yes c w) = None
   \<and> getSession (snd (cb_linkSheet_yes c w)) c =
       (let prev = (case getSession w c of None \<Rightarrow> empty_session | Some s \<Rightarrow> s) in
        Some \<lparr> step = Some ''await_sheet_url'', mode = Some ''sheet'', connectSheet = Some True,
               sheetId = sheetId prev, email = email prev, rows = rows prev,
               dateStr = dateStr prev, selectedTeam = selectedTeam prev \<rparr>)"
  by (simp add: cb_linkSheet_no_def cb_linkSheet_yes_def empty_session_def session_or_empty_def
      split: option.split)

section \<open>\<^verbatim>\<open>/logout\<close>\<close>

lemma cmd_logout_raises:
  "fst (cmd_logout c w) = Some (ReferenceError ''deleteSheet is not defined'')
   \<and> outbox (snd (cmd_logout c w)) = outbox w
   \<and> getSheet (snd (cmd_logout c w)) c = getSheet w c"
  by (simp add: cmd_logout_def state_js_imports_def Let_def removeAllCookies_def deleteSession_def
      deleteRefreshToken_def deleteFlyfoneCreds_def getSheet_def)

text \<open>
  C3 (the code departs from the claim). \<^verbatim>\<open>/logout\<close> for a chat with a stored credential,
  refresh token, session, cookies and linked sheet: the handler raises
  \<^verbatim>\<open>ReferenceError\<close> (\<^verbatim>\<open>deleteSheet\<close> is not imported), the linked sheet id stays
  in the store and no confirmation message is sent; credential, token, session and cookies
  are deleted.
\<close>

theorem logout_raises_before_confirmation:
  "(let w = run setup_sheet demo_world;
        r = handle demo_env CmdLogout 7 w
    in getSheet w 7 = Some ''abc123''
       \<and> fst r = Some (ReferenceError ''deleteSheet is not defined'')
       \<and> getSheet (snd r) 7 = Some ''abc123''
       \<and> outbox (snd r) = outbox w
       \<and> getFlyfoneCreds (snd r) 7 = None \<and> getRefreshToken (snd r) 7 = None
       \<and> getSession (snd r) 7 = None \<and> cookies (db (snd r)) 7 = None)"
  by code_simp

section \<open>Session guard\<close>

lemma withSessionGuard_no_session:
  "getSession w c = None \<Longrightarrow>
   withSessionGuard handler c w =
     (None, send (Reply ''<b>Do you want to connect your Google Sheet?</b>'' mode_keyboard)
              (deleteSession c (send (Reply ''<b>Session expired! Restarting...</b>'' NoKeyboard) w)))"
  by (simp add: withSessionGuard_def)

lemma withSessionGuard_session:
  "getSession w c = Some sess \<Longrightarrow> withSessionGuard handler c w = handler c w"
  by (simp add: withSessionGuard_def)

lemma guarded_handlers_no_session:
  assumes "getSession w c = None"
    and "ev \<in> {CmdTeam, CmdAgent text, CmdSummary text, CbChatTeam team, CbChatAgent team agent,
                CbTeam team, CbSheetMode m}"
  shows "handle E ev c w =
     (None, send (Reply ''<b>Do you want to connect your Google Sheet?</b>'' mode_keyboard)
              (deleteSession c (send (Reply ''<b>Session expired! Restarting...</b>'' NoKeyboard) w)))"
  using assms by (auto simp: withSessionGuard_no_session)

lemma begin_flows_raise_without_session:
  "getSession w c = None \<Longrightarrow>
     beginChatFlow c w = (Some (TypeError ''Cannot set properties of null (setting 'step')''), w)"
  "getSession w c = None \<Longrightarrow> truthy_str (getSheet w c) \<Longrightarrow> getFlyfoneCreds w c \<noteq> None \<Longrightarrow>
     beginSheetFlow c w = (Some (TypeError ''Cannot set properties of null (setting 'step')''), w)"
  by (simp_all add: beginChatFlow_def beginSheetFlow_def Let_def)

text \<open>
  C1 (the code departs from the claim). The handlers wrapped in \<^verbatim>\<open>withSessionGuard\<close>
  answer a missing session with the notice and the mode prompt, but the session-assuming
  flows behind \<^verbatim>\<open>/fetch\<close> are not wrapped: with a stored credential and a linked sheet
  but no session, \<^verbatim>\<open>/fetch\<close> raises \<^verbatim>\<open>TypeError\<close> in \<^verbatim>\<open>beginSheetFlow\<close> and sends
  nothing, and \<^verbatim>\<open>beginChatFlow\<close> raises the same error whenever no session is stored.
\<close>

theorem fetch_without_session_raises:
  "(let w = deleteSession 7 (run setup_sheet demo_world);
        r = handle demo_env CmdFetch 7 w
    in getSession w 7 = None
       \<and> fst r = Some (TypeError ''Cannot set properties of null (setting 'step')'')
       \<and> outbox (snd r) = outbox w
       \<and> fst (beginChatFlow 7 w) = Some (TypeError ''Cannot set properties of null (setting 'step')'')
       \<and> outbox (snd (beginChatFlow 7 w)) = outbox w)"
  by code_simp

section \<open>Status counts\<close>

lemma sum_counts_update_own_new:
  "map_of acc k = None \<Longrightarrow> sum_counts acc = Some m \<Longrightarrow>
   sum_counts (update_own acc k (JNum (Suc 0))) = Some (Suc m)"
proof (induction acc arbitrary: m)
  case Nil
  then show ?case by simp
next
  case (Cons p ps)
  obtain k' v' where p: "p = (k', v')" by (cases p)
  show ?case
  proof (cases v')
    case (JNum n)
    with Cons.prems p obtain m' where m': "sum_counts ps = Some m'" "m = n + m'"
      by (cases "sum_counts ps") auto
    from Cons.prems p have "k' \<noteq> k" "map_of ps k = None" by (auto split: if_splits)
    with Cons.IH [OF _ m'(1)] m' p JNum show ?thesis by simp
  next
    case (JStr s)
    with Cons.prems p show ?thesis by simp
  qed
qed

lemma sum_counts_update_own_old:
  "map_of acc k = Some (JNum n) \<Longrightarrow> sum_counts acc = Some m \<Longrightarrow>
   sum_counts (update_own acc k (JNum (Suc n))) = Some (Suc m)"
proof (induction acc arbitrary: m)
  case Nil
  then show ?case by simp
next
  case (Cons p ps)
  obtain k' v' where p: "p = (k', v')" by (cases p)
  show ?case
  proof (cases v')
    case (JNum n')
    with Cons.prems p obtain m' where m': "sum_counts ps = Some m'" "m = n' + m'"
      by (cases "sum_counts ps") auto
    show ?thesis
    proof (cases "k' = k")
      case True
      with Cons.prems p JNum have "n' = n" by simp
      with True p JNum m' show ?thesis by simp
    next
      case False
      with Cons.prems p have "map_of ps k = Some (JNum n)" by simp
      from Cons.IH [OF this m'(1)] False p JNum m' show ?thesis by simp
    qed
  next
    case (JStr s)
    with Cons.prems p show ?thesis by simp
  qed
qed

lemma sum_counts_Some_values:
  "sum_counts acc = Some m \<Longrightarrow> map_of acc k = Some v \<Longrightarrow> \<exists>n. v = JNum n"
proof (induction acc arbitrary: m)
  case Nil
  then show ?case by simp
next
  case (Cons p ps)
  obtain k' v' where p: "p = (k', v')" by (cases p)
  show ?case
  proof (cases v')
    case (JNum n)
    with Cons.prems p obtain m' where m': "sum_counts ps = Some m'"
      by (cases "sum_counts ps") auto
    show ?thesis
    proof (cases "k' = k")
      case True
      with Cons.prems p JNum show ?thesis by auto
    next
      case False
      with Cons.prems p have "map_of ps k = Some v" by simp
      from Cons.IH [OF m' this] show ?thesis .
    qed
  next
    case (JStr s)
    with Cons.prems p show ?thesis by simp
  qed
qed

lemma count_step_sum:
  assumes "status_key r \<notin> set object_prototype_keys" and "sum_counts acc = Some m"
  shows "sum_counts (count_step acc r) = Some (Suc m)"
proof -
  let ?k = "status_key r"
  from assms(1) have np: "?k \<noteq> ''__proto__''" by (auto simp: object_prototype_keys_def)
  show ?thesis
  proof (cases "map_of acc ?k")
    case None
    with assms np show ?thesis
      by (simp add: count_step_def Let_def set_prop_def get_prop_def bump_value_def
          sum_counts_update_own_new)
  next
    case (Some v)
    with sum_counts_Some_values [OF assms(2) Some] obtain n where v: "v = JNum n" by blast
    with Some assms np show ?thesis
      by (simp add: count_step_def Let_def set_prop_def get_prop_def bump_value_def
          sum_counts_update_own_old)
  qed
qed

lemma foldl_count_step_sum:
  "\<forall>r \<in> set rs. status_key r \<notin> set object_prototype_keys \<Longrightarrow> sum_counts acc = Some m \<Longrightarrow>
   sum_counts (foldl count_step acc rs) = Some (m + length rs)"
proof (induction rs arbitrary: acc m)
  case Nil
  then show ?case by simp
next
  case (Cons r rs)
  from Cons.prems have "sum_counts (count_step acc r) = Some (Suc m)"
    by (simp add: count_step_sum)
  with Cons.IH [of "count_step acc r" "Suc m"] Cons.prems show ?case by simp
qed

lemma countByStatus_partition_unless_prototype_key:
  "\<forall>r \<in> set filtered. status_key r \<notin> set object_prototype_keys \<Longrightarrow>
   sum_counts (countByStatus filtered) = Some (length filtered)"
  using foldl_count_step_sum [of filtered "[]" 0] by (simp add: countByStatus_def)

text \<open>
  C7 (the code departs from the claim). The counter is an object literal, so a status
  named like a member of \<^verbatim>\<open>Object.prototype\<close> is not counted as a number: one record
  with status \<^verbatim>\<open>__proto__\<close> gives total 1 and no bucket at all (the sum of the counts
  is 0), and one with status \<^verbatim>\<open>constructor\<close> gives a bucket holding a string. For
  every other status the counts do sum to the number of records
  (\<open>countByStatus_partition_unless_prototype_key\<close>).
\<close>

theorem countByStatus_loses_prototype_keys:
  "(let filtered = filter (\<lambda>r. at r 6 = CStr ''Sales'' \<and> at r 5 = CStr ''Jane Doe'') (slice1 proto_rows)
    in length filtered = 1
       \<and> countByStatus filtered = []
       \<and> sum_counts (countByStatus filtered) = Some 0)
   \<and> (let filtered = filter (\<lambda>r. at r 6 = CStr ''Sales'' \<and> at r 5 = CStr ''Jane Doe'') (slice1 ctor_rows)
      in length filtered = 1
         \<and> countByStatus filtered = [(''constructor'', JStr ''function Object() { [native code] }1'')]
         \<and> sum_counts (countByStatus filtered) = None)"
  by code_simp

section \<open>Rows written to the spreadsheet\<close>

lemma writeToSheet_log:
  "sheets_log (snd (writeToSheet E c sid values ow w)) =
     sheets_log w @ sheet_calls E (getRefreshToken w c) (if ow then ''overwrite'' else ''append'') sid values"
  by (simp add: writeToSheet_def sheets_call_api_def sheet_calls_def getRefreshToken_def
      split: option.split prod.split)

lemma sheet_calls_mode:
  "sheet_calls E tok (if m = ''overwrite'' then ''overwrite'' else ''append'') sid values =
   sheet_calls E tok m sid values"
  by (simp add: sheet_calls_def)

lemma sheetMode_handler_log:
  assumes "getSession w c = Some sess" and "rows sess = Some rs"
  shows "sheets_log (snd (sheetMode_handler E m c w)) =
     sheets_log w @ sheet_calls E (getRefreshToken w c) m (sheetId sess)
        (sheet_header # map sheet_row (sheet_filtered rs (selectedTeam sess)))"
proof -
  let ?out = "sheet_output rs (selectedTeam sess)"
  obtain r w1 where wr: "writeToSheet E c (sheetId sess) ?out (m = ''overwrite'') w = (r, w1)"
    by (cases "writeToSheet E c (sheetId sess) ?out (m = ''overwrite'') w")
  have "sheets_log w1 = sheets_log w @ sheet_calls E (getRefreshToken w c) m (sheetId sess) ?out"
    using writeToSheet_log [of E c "sheetId sess" ?out "m = ''overwrite''" w] wr
    by (simp add: sheet_calls_mode)
  moreover have "sheets_log (snd (sheetMode_handler E m c w)) = sheets_log w1"
    using assms wr by (cases r) (simp_all add: sheetMode_handler_def Let_def)
  ultimately show ?thesis by (simp add: sheet_output_def)
qed

lemma sheet_row_columns:
  "sheet_row = (\<lambda>r. [at r 5, at r 6, at r 7, at r 8, at r 9, at r 10, at r 11, at r 1, at r 2, at r 3])"
  by (rule ext) (simp add: sheet_row_def)

text \<open>
  C5 (amended). Every spreadsheet write of the write-mode handler carries the exact
  10-column header row Caller, Team, Callee, Status, Duration (s), Talktime (s), Hangup By,
  Call Date, Call Time, End Time first, and every following data row lists raw columns
  5, 6, 7, 8, 9, 10, 11, 1, 2, 3 of an export row of the selected team, in this order: the
  Caller column holds raw column 5 (the agent column of the export), not raw column 0.
\<close>

theorem sheet_write_shape:
  assumes "getSession w c = Some sess" and "rows sess = Some rs"
  shows "sheets_log (snd (handle E (CbSheetMode m) c w)) =
     sheets_log w @ sheet_calls E (getRefreshToken w c) m (sheetId sess)
        (map CStr [''Caller'', ''Team'', ''Callee'', ''Status'', ''Duration (s)'', ''Talktime (s)'',
                   ''Hangup By'', ''Call Date'', ''Call Time'', ''End Time'']
         # map (\<lambda>r. [at r 5, at r 6, at r 7, at r 8, at r 9, at r 10, at r 11, at r 1, at r 2, at r 3])
             (filter (\<lambda>r. map_option toLowerCase (opt_toString (at r 6)) = selectedTeam sess)
                (drop 1 rs)))"
proof -
  have "handle E (CbSheetMode m) c w = sheetMode_handler E m c w"
    using assms(1) by (simp add: withSessionGuard_def)
  then show ?thesis
    using sheetMode_handler_log [OF assms, of E m]
    by (simp add: sheet_header_def sheet_row_columns sheet_filtered_def slice1_def)
qed

theorem sheet_write_shape_witness:
  "getSession (run setup_export demo_world) 7 = Some export_session
   \<and> rows export_session = Some demo_rows
   \<and> sheets_log (snd (handle demo_env (CbSheetMode ''overwrite'') 7 (run setup_export demo_world))) =
       [ValuesClear (Some ''abc123'') ''Sheet1!A1:Z'',
        ValuesUpdate (Some ''abc123'') ''Sheet1!A1''
          [map CStr [''Caller'', ''Team'', ''Callee'', ''Status'', ''Duration (s)'', ''Talktime (s)'',
                     ''Hangup By'', ''Call Date'', ''Call Time'', ''End Time''],
           [CStr ''Jane Doe'', CStr ''Sales'', CStr ''555'', CStr ''ANSWER'', CNum 300, CNum 280,
            CStr ''callee'', CStr ''2025-07-01'', CStr ''09:00'', CStr ''09:05''],
           [CStr ''Jan Lee'', CStr ''Sales'', CStr ''556'', CStr ''BUSY'', CNum 60, CNum 0,
            CStr ''caller'', CStr ''2025-07-01'', CStr ''10:00'', CStr ''10:01'']]]"
proof -
  have s: "getSession (run setup_export demo_world) 7 = Some export_session"
    by code_simp
  have r: "rows export_session = Some demo_rows"
    by (simp add: export_session_def)
  have l: "sheets_log (run setup_export demo_world) = []" by code_simp
  have tok: "getRefreshToken (run setup_export demo_world) 7 = Some ''refresh''" by code_simp
  have c: "sheet_calls demo_env (Some ''refresh'') ''overwrite'' (sheetId export_session)
        (map CStr [''Caller'', ''Team'', ''Callee'', ''Status'', ''Duration (s)'', ''Talktime (s)'',
                   ''Hangup By'', ''Call Date'', ''Call Time'', ''End Time'']
         # map (\<lambda>r. [at r 5, at r 6, at r 7, at r 8, at r 9, at r 10, at r 11, at r 1, at r 2, at r 3])
             (filter (\<lambda>r. map_option toLowerCase (opt_toString (at r 6)) = selectedTeam export_session)
                (drop 1 demo_rows))) =
       [ValuesClear (Some ''abc123'') ''Sheet1!A1:Z'',
        ValuesUpdate (Some ''abc123'') ''Sheet1!A1''
          [map CStr [''Caller'', ''Team'', ''Callee'', ''Status'', ''Duration (s)'', ''Talktime (s)'',
                     ''Hangup By'', ''Call Date'', ''Call Time'', ''End Time''],
           [CStr ''Jane Doe'', CStr ''Sales'', CStr ''555'', CStr ''ANSWER'', CNum 300, CNum 280,
            CStr ''callee'', CStr ''2025-07-01'', CStr ''09:00'', CStr ''09:05''],
           [CStr ''Jan Lee'', CStr ''Sales'', CStr ''556'', CStr ''BUSY'', CNum 60, CNum 0,
            CStr ''caller'', CStr ''2025-07-01'', CStr ''10:00'', CStr ''10:01'']]]"
    by code_simp
  show ?thesis
    using sheet_write_shape [OF s r, of demo_env "''overwrite''"] s r
    by (simp only: l tok c append_Nil simp_thms)
qed

text \<open>
  C5 as stated fails: for the export row whose raw column 0 is \<^verbatim>\<open>1001\<close> and raw column 5
  is \<^verbatim>\<open>Jane Doe\<close>, the Caller cell written is \<^verbatim>\<open>Jane Doe\<close>.
\<close>

theorem caller_column_is_not_raw_column_0:
  "(let r = demo_rows ! 1;
        written = sheet_output demo_rows (Some ''sales'') ! 1
    in at written 0 = CStr ''Jane Doe'' \<and> at r 0 = CStr ''1001'' \<and> at written 0 \<noteq> at r 0
       \<and> at written 0 = at r 5)"
  by code_simp

section \<open>Login check\<close>

lemma ensureLoggedIn_probe_success:
  assumes "fst (serve E (portal w) j GetDashboard) = Response 200 body"
  shows "fst (ensureLoggedIn E c em pw j w) = None"
    and "http_log (snd (snd (ensureLoggedIn E c em pw j w))) = http_log w @ [GetDashboard]"
    and "db (snd (snd (ensureLoggedIn E c em pw j w))) = db w"
  using assms
  by (cases "serve E (portal w) j GetDashboard"; simp add: ensureLoggedIn_def http_def Let_def)+

text \<open>
  C8. When the cookie session is valid (the probe of \<^verbatim>\<open>/dashboard\<close> answers 200),
  \<^verbatim>\<open>ensureLoggedIn\<close> returns without error right after the probe: the probe is the only
  request it sends and the store is unchanged. Hence a second call in a row whose probe
  succeeds sends no login POST.
\<close>

theorem ensureLoggedIn_idempotent:
  "(fst (serve E (portal w) j GetDashboard) = Response 200 body \<longrightarrow>
      fst (ensureLoggedIn E c em pw j w) = None
      \<and> http_log (snd (snd (ensureLoggedIn E c em pw j w))) = http_log w @ [GetDashboard]
      \<and> db (snd (snd (ensureLoggedIn E c em pw j w))) = db w)
   \<and> (case ensureLoggedIn E0 c0 em0 pw0 j0 w0 of
        (r1, j1, w1) \<Rightarrow>
          fst (serve E1 (portal w1) j1 GetDashboard) = Response 200 body1 \<longrightarrow>
          (case ensureLoggedIn E1 c0 em0 pw0 j1 w1 of
             (r2, j2, w2) \<Rightarrow>
               r2 = None \<and> http_log w2 = http_log w1 @ [GetDashboard]
               \<and> filter is_login_post (http_log w2) = filter is_login_post (http_log w1)))"
proof (intro conjI impI)
  assume a: "fst (serve E (portal w) j GetDashboard) = Response 200 body"
  show "fst (ensureLoggedIn E c em pw j w) = None"
    and "http_log (snd (snd (ensureLoggedIn E c em pw j w))) = http_log w @ [GetDashboard]"
    and "db (snd (snd (ensureLoggedIn E c em pw j w))) = db w"
    using ensureLoggedIn_probe_success [OF a] by simp_all
next
  show "case ensureLoggedIn E0 c0 em0 pw0 j0 w0 of
        (r1, j1, w1) \<Rightarrow>
          fst (serve E1 (portal w1) j1 GetDashboard) = Response 200 body1 \<longrightarrow>
          (case ensureLoggedIn E1 c0 em0 pw0 j1 w1 of
             (r2, j2, w2) \<Rightarrow>
               r2 = None \<and> http_log w2 = http_log w1 @ [GetDashboard]
               \<and> filter is_login_post (http_log w2) = filter is_login_post (http_log w1))"
  proof (cases "ensureLoggedIn E0 c0 em0 pw0 j0 w0")
    case (fields r1 j1 w1)
    show ?thesis
    proof (simp only: fields prod.case, intro impI)
      assume a: "fst (serve E1 (portal w1) j1 GetDashboard) = Response 200 body1"
      obtain r2 j2 w2 where s: "ensureLoggedIn E1 c0 em0 pw0 j1 w1 = (r2, j2, w2)"
        by (cases "ensureLoggedIn E1 c0 em0 pw0 j1 w1")
      from ensureLoggedIn_probe_success [OF a, of c0 em0 pw0] s
      have "r2 = None" and "http_log w2 = http_log w1 @ [GetDashboard]" by simp_all
      then show "case ensureLoggedIn E1 c0 em0 pw0 j1 w1 of
             (r2, j2, w2) \<Rightarrow>
               r2 = None \<and> http_log w2 = http_log w1 @ [GetDashboard]
               \<and> filter is_login_post (http_log w2) = filter is_login_post (http_log w1)"
        by (simp add: s is_login_post_def)
    qed
  qed
qed

theorem ensureLoggedIn_idempotent_witness:
  "(case ensureLoggedIn demo_env 7 (Some ''a@b.c'') ''secret'' [] demo_world of
      (r1, j1, w1) \<Rightarrow>
        r1 = None
        \<and> http_log w1 = [GetDashboard, GetLogin, PostLogin ''tok'' (Some ''a@b.c'') ''secret'']
        \<and> fst (serve demo_env (portal w1) j1 GetDashboard) = Response 200 ''dashboard''
        \<and> (case ensureLoggedIn demo_env 7 (Some ''a@b.c'') ''secret'' j1 w1 of
             (r2, j2, w2) \<Rightarrow>
               r2 = None
               \<and> http_log w2 = [GetDashboard, GetLogin, PostLogin ''tok'' (Some ''a@b.c'') ''secret'',
                                 GetDashboard]
               \<and> filter is_login_post (http_log w2) = filter is_login_post (http_log w1)
               \<and> db w2 = db w1))"
proof (cases "ensureLoggedIn demo_env 7 (Some ''a@b.c'') ''secret'' [] demo_world")
  case (fields r1 j1 w1)
  have first: "fst (ensureLoggedIn demo_env 7 (Some ''a@b.c'') ''secret'' [] demo_world) = None"
    "fst (snd (ensureLoggedIn demo_env 7 (Some ''a@b.c'') ''secret'' [] demo_world)) = [''sid=1'']"
    "http_log (snd (snd (ensureLoggedIn demo_env 7 (Some ''a@b.c'') ''secret'' [] demo_world))) =
       [GetDashboard, GetLogin, PostLogin ''tok'' (Some ''a@b.c'') ''secret'']"
    "portal (snd (snd (ensureLoggedIn demo_env 7 (Some ''a@b.c'') ''secret'' [] demo_world))) = True"
    by code_simp+
  with fields have f: "r1 = None" "j1 = [''sid=1'']" "portal w1 = True"
    "http_log w1 = [GetDashboard, GetLogin, PostLogin ''tok'' (Some ''a@b.c'') ''secret'']"
    by simp_all
  have probe: "fst (serve demo_env (portal w1) j1 GetDashboard) = Response 200 ''dashboard''"
    by (simp add: f demo_env_def demo_serve_def)
  obtain r2 j2 w2 where s: "ensureLoggedIn demo_env 7 (Some ''a@b.c'') ''secret'' j1 w1 = (r2, j2, w2)"
    by (cases "ensureLoggedIn demo_env 7 (Some ''a@b.c'') ''secret'' j1 w1")
  note T = ensureLoggedIn_idempotent [where E = demo_env and w = w1 and j = j1 and body = "''dashboard''"
      and c = 7 and em = "Some ''a@b.c''" and pw = "''secret''"
      and ?E0.0 = demo_env and ?c0.0 = 7 and ?em0.0 = "Some ''a@b.c''" and ?pw0.0 = "''secret''"
      and ?j0.0 = "[]" and ?w0.0 = demo_world and ?E1.0 = demo_env and ?body1.0 = "''dashboard''"]
  from T probe s have A: "r2 = None" "http_log w2 = http_log w1 @ [GetDashboard]" "db w2 = db w1"
    by simp_all
  from A have B: "filter is_login_post (http_log w2) = filter is_login_post (http_log w1)"
    by (simp add: is_login_post_def)
  show ?thesis
    apply (simp only: fields prod.case s)
    using A B f(1,4) probe apply simp
    done
qed

section \<open>Date argument of \<^verbatim>\<open>/summary\<close>\<close>

lemma parseDateInput_None_iff:
  "parseDateInput E input = None \<longleftrightarrow>
     (toLowerCase (trim input) \<noteq> ''today'' \<and> toLowerCase (trim input) \<noteq> ''yesterday''
      \<and> dayjs_parse E (toLowerCase (trim input)) = None
      \<and> chrono_parse E (toLowerCase (trim input)) = None)"
  by (simp add: parseDateInput_def dayjs_with_format_def Let_def split: option.split)

lemma parseDateInput_accepts:
  "toLowerCase (trim input) = ''today'' \<Longrightarrow> parseDateInput E input = Some (now E)"
  "toLowerCase (trim input) = ''yesterday'' \<Longrightarrow> parseDateInput E input = Some (now E - 86400000)"
  "toLowerCase (trim input) \<notin> {''today'', ''yesterday''} \<Longrightarrow>
     dayjs_parse E (toLowerCase (trim input)) = Some d \<Longrightarrow> parseDateInput E input = Some d"
  "toLowerCase (trim input) \<notin> {''today'', ''yesterday''} \<Longrightarrow>
     dayjs_parse E (toLowerCase (trim input)) = None \<Longrightarrow>
     parseDateInput E input = chrono_parse E (toLowerCase (trim input))"
  by (simp_all add: parseDateInput_def dayjs_with_format_def Let_def)

text \<open>Whatever \<^verbatim>\<open>REGEX_PARSE\<close> matches is taken as a date: no range of month or day is
  checked, and no format.\<close>

lemma dayjs_parse_takes_every_match:
  "match_items REGEX_PARSE txt = Some taken \<Longrightarrow> last txt \<noteq> CHR ''Z'' \<Longrightarrow> last txt \<noteq> CHR ''z'' \<Longrightarrow>
   dayjs_parse E txt \<noteq> None"
  by (simp add: dayjs_parse_def Let_def)

text \<open>
  An argument that no step accepts: the only effect of the command is the message that
  the date could not be understood.
\<close>

lemma summary_handler_bad_date:
  assumes "getSession w c = Some sess" and "drop 1 (split_ws msg) = rawDate # t # ts"
    and "parseDateInput E rawDate = None"
  shows "handle E (CmdSummary msg) c w =
     (None, w\<lparr>outbox := outbox w
        @ [Reply (''<b>Could not understand date '' @ [dq] @ rawDate @ [dq] @ ''.</b>'') NoKeyboard]\<rparr>)"
  using assms
  by (simp add: withSessionGuard_def summary_handler_def Let_def replyBold_def send_def bold_def)

text \<open>
  C9 (the code departs from the claim). The date argument is not parsed strictly:
  \<^verbatim>\<open>dayjs(txt, 'YYYY-MM-DD', true)\<close> runs without the plugin that reads the format and the
  strict flag, so \<^verbatim>\<open>2025-13-45\<close> (no date, and not \<^verbatim>\<open>YYYY-MM-DD\<close>) is accepted and
  \<^verbatim>\<open>/summary 2025-13-45 Sales\<close> does not answer that the date could not be understood:
  it loads and shows the summary of another day, 2026-02-14. Likewise \<^verbatim>\<open>2025-7-1\<close>
  and \<^verbatim>\<open>20250701\<close> are taken as 2025-07-01.
\<close>

theorem summary_accepts_a_date_that_is_not_strict:
  "(let w = run setup_login demo_world;
        r = handle demo_env (CmdSummary ''/summary 2025-13-45 Sales'') 7 w
    in getSession w 7 \<noteq> None
       \<and> chrono_parse demo_env ''2025-13-45'' = None
       \<and> parseDateInput demo_env ''2025-13-45'' = Some 1771027200000
       \<and> format_ymd demo_env 1771027200000 = ''2026-02-14''
       \<and> fst r = None
       \<and> outbox (snd r) = outbox w
            @ [Reply (''<b>Loading summary for Sales on 2026-02-14'' @ ellipsis @ ''</b>'') NoKeyboard,
               Reply (''<b>Summary for Sales on 2026-02-14:</b>'' @ [CHR 0x0A]
                      @ bullet @ '' <b>Jane Doe:</b> 1'' @ [CHR 0x0A]
                      @ bullet @ '' <b>Jan Lee:</b> 1'') NoKeyboard]
       \<and> http_log (snd r) = http_log w @ [GetDashboard, GetExport ''2026-02-14''])
   \<and> map_option (format_ymd demo_env) (parseDateInput demo_env ''2025-7-1'') = Some ''2025-07-01''
   \<and> map_option (format_ymd demo_env) (parseDateInput demo_env ''20250701'') = Some ''2025-07-01''"
  by code_simp

section \<open>\<^verbatim>\<open>/summary\<close> and the session\<close>

lemma send_saveSession: "send m (saveSession c s w) = saveSession c s (send m w)"
  by (simp add: send_def saveSession_def)

lemma replyBold_saveSession: "replyBold t kb (saveSession c s w) = saveSession c s (replyBold t kb w)"
  by (simp add: replyBold_def send_saveSession)

lemma getFlyfoneCreds_saveSession [simp]: "getFlyfoneCreds (saveSession c s w) c' = getFlyfoneCreds w c'"
  by (simp add: getFlyfoneCreds_def saveSession_def)

lemma loadCookies_saveSession [simp]: "loadCookies (saveSession c s w) c' = loadCookies w c'"
  by (simp add: loadCookies_def saveSession_def)

lemma http_saveSession:
  "http E v rq j (saveSession c s w) =
     (case http E v rq j w of (r, j', w') \<Rightarrow> (r, j', saveSession c s w'))"
  by (simp add: http_def saveSession_def Let_def split: prod.split http_result.split)

lemma saveCookies_saveSession:
  "saveCookies c' j (saveSession c s w) = saveSession c s (saveCookies c' j w)"
  by (simp add: saveCookies_def saveSession_def)

lemma ensureLoggedIn_saveSession:
  "ensureLoggedIn E c' em pw j (saveSession c s w) =
     (case ensureLoggedIn E c' em pw j w of (r, j', w') \<Rightarrow> (r, j', saveSession c s w'))"
  by (simp add: ensureLoggedIn_def http_saveSession saveCookies_saveSession
      split: prod.split sum.split option.split)

lemma downloadFlyfoneReport_saveSession:
  "downloadFlyfoneReport E c' ds em pw j (saveSession c s w) =
     (case downloadFlyfoneReport E c' ds em pw j w of (r, w') \<Rightarrow> (r, saveSession c s w'))"
  by (simp add: downloadFlyfoneReport_def ensureLoggedIn_saveSession http_saveSession
      split: prod.split sum.split option.split)

lemma summary_handler_saveSession:
  "summary_handler E msg c' (saveSession c s w) =
     (case summary_handler E msg c' w of (r, w') \<Rightarrow> (r, saveSession c s w'))"
  by (simp add: summary_handler_def Let_def replyBold_saveSession send_saveSession
      downloadFlyfoneReport_saveSession
      split: list.split option.split prod.split sum.split)

lemma http_log_http_snd:
  "http_log (snd (snd (http E v rq j w))) = http_log w @ [rq]"
  by (simp add: http_def Let_def split: prod.split http_result.split)

lemma http_log_http:
  "http E v rq j w = (r, j', w') \<Longrightarrow> http_log w' = http_log w @ [rq]"
  using http_log_http_snd [of E v rq j w] by simp

lemma ensureLoggedIn_starts_with_probe:
  "\<exists>rest. http_log (snd (snd (ensureLoggedIn E c em pw j w))) = http_log w @ GetDashboard # rest"
proof -
  obtain r1 j1 w1 where h1: "http E (\<lambda>s. s = 200) GetDashboard j w = (r1, j1, w1)"
    by (cases "http E (\<lambda>s. s = 200) GetDashboard j w")
  note l1 = http_log_http [OF h1]
  show ?thesis
  proof (cases r1)
    case (Inr probe)
    with h1 l1 show ?thesis by (simp add: ensureLoggedIn_def)
  next
    case (Inl e)
    obtain r2 j2 w2 where h2: "http E (\<lambda>s. s = 200) GetLogin j1 w1 = (r2, j2, w2)"
      by (cases "http E (\<lambda>s. s = 200) GetLogin j1 w1")
    note l2 = http_log_http [OF h2]
    show ?thesis
    proof (cases r2)
      case e2: (Inl e')
      with Inl h1 h2 l1 l2 show ?thesis by (simp add: ensureLoggedIn_def)
    next
      case (Inr page)
      obtain st body where pg: "page = (st, body)" by (cases page)
      show ?thesis
      proof (cases "extract_csrf body")
        case None
        with Inl Inr pg h1 h2 l1 l2 show ?thesis by (simp add: ensureLoggedIn_def)
      next
        case (Some csrf)
        obtain r3 j3 w3 where
          h3: "http E (\<lambda>s. s \<in> set [302, 303, 200]) (PostLogin csrf em pw) j2 w2 = (r3, j3, w3)"
          by (cases "http E (\<lambda>s. s \<in> set [302, 303, 200]) (PostLogin csrf em pw) j2 w2")
        note l3 = http_log_http [OF h3]
        from Inl Inr pg Some h1 h2 h3 l1 l2 l3 show ?thesis
          by (cases r3) (auto simp: ensureLoggedIn_def saveCookies_def)
      qed
    qed
  qed
qed

lemma downloadFlyfoneReport_starts_with_probe:
  "\<exists>rest. http_log (snd (downloadFlyfoneReport E c ds em pw j w)) = http_log w @ GetDashboard # rest"
proof -
  obtain r1 j1 w1 where e: "ensureLoggedIn E c em pw j w = (r1, j1, w1)"
    by (cases "ensureLoggedIn E c em pw j w")
  from ensureLoggedIn_starts_with_probe [of E c em pw j w] e
  obtain rest where l1: "http_log w1 = http_log w @ GetDashboard # rest" by auto
  show ?thesis
  proof (cases r1)
    case (Some err)
    with e l1 show ?thesis by (simp add: downloadFlyfoneReport_def)
  next
    case None
    obtain r2 j2 w2 where h: "http E (\<lambda>s. 200 \<le> s \<and> s < 300) (GetExport ds) j1 w1 = (r2, j2, w2)"
      by (cases "http E (\<lambda>s. 200 \<le> s \<and> s < 300) (GetExport ds) j1 w1")
    from http_log_http [OF h] l1 have "http_log w2 = http_log w @ GetDashboard # (rest @ [GetExport ds])"
      by simp
    with None e h show ?thesis
      by (cases r2) (auto simp: downloadFlyfoneReport_def)
  qed
qed

lemma http_log_send [simp]: "http_log (send m w) = http_log w"
  by (simp add: send_def)

lemma http_log_replyBold [simp]: "http_log (replyBold t kb w) = http_log w"
  by (simp add: replyBold_def)

lemma summary_handler_starts_with_probe:
  assumes "drop 1 (split_ws msg) = rawDate # t # ts" and "parseDateInput E rawDate = Some d"
    and "getFlyfoneCreds w c = Some creds"
  shows "\<exists>rest. http_log (snd (summary_handler E msg c w)) = http_log w @ GetDashboard # rest"
proof -
  let ?team = "join_with '' '' (t # ts)"
  let ?w1 = "replyBold (''Loading summary for '' @ ?team @ '' on '' @ format_ymd E d @ ellipsis) NoKeyboard w"
  let ?dl = "downloadFlyfoneReport E c (format_ymd E d) (cred_email creds) (cred_pass creds)
               (loadCookies ?w1 c) ?w1"
  obtain r w2 where dl: "?dl = (r, w2)" by (cases ?dl)
  from downloadFlyfoneReport_starts_with_probe [of E c "format_ymd E d" "cred_email creds"
      "cred_pass creds" "loadCookies ?w1 c" ?w1] dl
  obtain rest where l: "http_log w2 = http_log w @ GetDashboard # rest" by auto
  have c': "getFlyfoneCreds ?w1 c = Some creds"
    using assms(3) by (simp add: getFlyfoneCreds_def replyBold_def send_def)
  have "http_log (snd (summary_handler E msg c w)) = http_log w2"
    using assms dl by (cases r) (simp_all add: summary_handler_def Let_def)
  with l show ?thesis by simp
qed

lemma saveSession_fields [simp]:
  "outbox (saveSession c s w) = outbox w"
  "http_log (saveSession c s w) = http_log w"
  "portal (saveSession c s w) = portal w"
  "flyfone_creds (db (saveSession c s w)) = flyfone_creds (db w)"
  "cookies (db (saveSession c s w)) = cookies (db w)"
  "user_tokens (db (saveSession c s w)) = user_tokens (db w)"
  "sheet_map (db (saveSession c s w)) = sheet_map (db w)"
  by (simp_all add: saveSession_def)

lemma saveSession_same: "getSession w c = Some s \<Longrightarrow> saveSession c s w = w"
  by (simp add: saveSession_def getSession_def map_upd_triv)

text \<open>
  C2 (amended). \<^verbatim>\<open>/summary <date> <team>\<close> runs its body (login check, fetch, normalise,
  aggregate) in one shot whenever some session is stored for the chat, whatever the session
  holds: replacing the stored session by any other one (any \<open>step\<close>, any other field)
  changes neither the result, the messages, the requests nor the rest of the store, and the
  session itself is left as it was. With a parsed date and a stored credential the first
  request is the login probe. It needs no \<^verbatim>\<open>AWAIT_*\<close> staging; it does need a session
  to exist.
\<close>

theorem summary_needs_a_session_not_a_step:
  assumes "getSession w c = Some s1"
  shows "handle E (CmdSummary msg) c w = summary_handler E msg c w
    \<and> (let r1 = handle E (CmdSummary msg) c w;
            r2 = handle E (CmdSummary msg) c (saveSession c s2 w)
        in fst r1 = fst r2 \<and> outbox (snd r1) = outbox (snd r2)
           \<and> http_log (snd r1) = http_log (snd r2) \<and> sheets_log (snd r1) = sheets_log (snd r2)
           \<and> portal (snd r1) = portal (snd r2)
           \<and> flyfone_creds (db (snd r1)) = flyfone_creds (db (snd r2))
           \<and> cookies (db (snd r1)) = cookies (db (snd r2))
           \<and> user_tokens (db (snd r1)) = user_tokens (db (snd r2))
           \<and> sheet_map (db (snd r1)) = sheet_map (db (snd r2))
           \<and> getSession (snd r1) c = Some s1 \<and> getSession (snd r2) c = Some s2)
    \<and> (drop 1 (split_ws msg) = rawDate # t # ts \<longrightarrow> parseDateInput E rawDate = Some d \<longrightarrow>
         getFlyfoneCreds w c = Some creds \<longrightarrow>
         (\<exists>rest. http_log (snd (handle E (CmdSummary msg) c w)) = http_log w @ GetDashboard # rest))"
proof -
  have h1: "handle E (CmdSummary msg) c w = summary_handler E msg c w"
    using assms by (simp add: withSessionGuard_def)
  have h2: "handle E (CmdSummary msg) c (saveSession c s2 w) =
            summary_handler E msg c (saveSession c s2 w)"
    by (simp add: withSessionGuard_def)
  obtain r w' where b: "summary_handler E msg c w = (r, w')"
    by (cases "summary_handler E msg c w")
  have w: "saveSession c s1 w = w" using assms by (rule saveSession_same)
  have c2: "summary_handler E msg c (saveSession c s2 w) = (r, saveSession c s2 w')"
    by (simp add: summary_handler_saveSession b)
  have "summary_handler E msg c (saveSession c s1 w) = (r, saveSession c s1 w')"
    by (simp add: summary_handler_saveSession b)
  with w b have w': "saveSession c s1 w' = w'" by simp
  then have g1: "getSession w' c = Some s1"
    by (metis getSession_saveSession)
  have third: "drop 1 (split_ws msg) = rawDate # t # ts \<longrightarrow> parseDateInput E rawDate = Some d \<longrightarrow>
         getFlyfoneCreds w c = Some creds \<longrightarrow>
         (\<exists>rest. http_log (snd (handle E (CmdSummary msg) c w)) = http_log w @ GetDashboard # rest)"
    using summary_handler_starts_with_probe [of msg rawDate t ts E d w c creds] h1 by simp
  show ?thesis
    using h1 h2 b c2 g1 third by (simp add: Let_def sheets_log_saveSession)
qed

theorem summary_needs_a_session_not_a_step_witness:
  "getSession (run setup_login demo_world) 7 = Some login_session
   \<and> drop 1 (split_ws ''/summary today Sales'') = [''today'', ''Sales'']
   \<and> parseDateInput demo_env ''today'' = Some 1751328000000
   \<and> getFlyfoneCreds (run setup_login demo_world) 7 = Some \<lparr>cred_email = Some ''a@b.c'', cred_pass = ''secret''\<rparr>
   \<and> handle demo_env (CmdSummary ''/summary today Sales'') 7 (run setup_login demo_world) =
       summary_handler demo_env ''/summary today Sales'' 7 (run setup_login demo_world)
   \<and> outbox (snd (handle demo_env (CmdSummary ''/summary today Sales'') 7 (run setup_login demo_world))) =
       outbox (snd (handle demo_env (CmdSummary ''/summary today Sales'') 7
         (saveSession 7 (empty_session\<lparr>step := Some ''chat_await_date''\<rparr>) (run setup_login demo_world))))
   \<and> http_log (snd (handle demo_env (CmdSummary ''/summary today Sales'') 7 (run setup_login demo_world))) =
       http_log (run setup_login demo_world) @ [GetDashboard, GetExport ''2025-07-01'']"
proof -
  have s: "getSession (run setup_login demo_world) 7 = Some login_session" by code_simp
  have p: "drop 1 (split_ws ''/summary today Sales'') = ''today'' # ''Sales'' # []" by code_simp
  have d: "parseDateInput demo_env ''today'' = Some 1751328000000" by code_simp
  have c: "getFlyfoneCreds (run setup_login demo_world) 7 =
      Some \<lparr>cred_email = Some ''a@b.c'', cred_pass = ''secret''\<rparr>" by code_simp
  have l: "http_log (snd (summary_handler demo_env ''/summary today Sales'' 7 (run setup_login demo_world))) =
       http_log (run setup_login demo_world) @ [GetDashboard, GetExport ''2025-07-01'']"
    by code_simp
  note T = summary_needs_a_session_not_a_step [OF s, where E = demo_env and msg = "''/summary today Sales''"
      and ?s2.0 = "empty_session\<lparr>step := Some ''chat_await_date''\<rparr>" and rawDate = "''today''"
      and t = "''Sales''" and ts = "[]" and d = 1751328000000
      and creds = "\<lparr>cred_email = Some ''a@b.c'', cred_pass = ''secret''\<rparr>"]
  from T have e1: "handle demo_env (CmdSummary ''/summary today Sales'') 7 (run setup_login demo_world) =
       summary_handler demo_env ''/summary today Sales'' 7 (run setup_login demo_world)"
    by blast
  from T have e2: "outbox (snd (handle demo_env (CmdSummary ''/summary today Sales'') 7 (run setup_login demo_world))) =
       outbox (snd (handle demo_env (CmdSummary ''/summary today Sales'') 7
         (saveSession 7 (empty_session\<lparr>step := Some ''chat_await_date''\<rparr>) (run setup_login demo_world))))"
    unfolding Let_def by blast
  show ?thesis
  proof (intro conjI)
    show "http_log (snd (handle demo_env (CmdSummary ''/summary today Sales'') 7 (run setup_login demo_world))) =
       http_log (run setup_login demo_world) @ [GetDashboard, GetExport ''2025-07-01'']"
      by (simp only: e1 l)
  qed (fact s p d c e1 e2)+
qed

text \<open>
  C2 as stated fails: with a stored credential but no session, \<^verbatim>\<open>/summary today Sales\<close>
  is answered by the session guard (notice and mode prompt) and sends no request, although
  its body would have sent the probe and the export request.
\<close>

theorem summary_without_session_is_guarded:
  "(let w = deleteSession 7 (run setup_login demo_world);
        r = handle demo_env (CmdSummary ''/summary today Sales'') 7 w
    in getFlyfoneCreds w 7 = Some \<lparr>cred_email = Some ''a@b.c'', cred_pass = ''secret''\<rparr>
       \<and> getSession w 7 = None
       \<and> fst r = None
       \<and> http_log (snd r) = http_log w
       \<and> outbox (snd r) = outbox w @ [Reply ''<b>Session expired! Restarting...</b>'' NoKeyboard,
            Reply ''<b>Do you want to connect your Google Sheet?</b>'' mode_keyboard]
       \<and> http_log (snd (summary_handler demo_env ''/summary today Sales'' 7 w)) =
            http_log w @ [GetDashboard, GetExport ''2025-07-01''])"
  by code_simp

section \<open>The session invariant\<close>

lemma sessions_ok_same:
  "sessions (db w') = sessions (db w) \<Longrightarrow> sessions_ok w \<Longrightarrow> sessions_ok w'"
  by (simp add: sessions_ok_def getSession_def)

lemma sessions_ok_saveSession:
  "sessions_ok w \<Longrightarrow> rows_with_dateStr s \<Longrightarrow> sessions_ok (saveSession c s w)"
  by (simp add: sessions_ok_def)

lemma sessions_ok_deleteSession: "sessions_ok w \<Longrightarrow> sessions_ok (deleteSession c w)"
  by (simp add: sessions_ok_def getSession_def deleteSession_def)

lemma sessions_ok_send [simp]: "sessions_ok (send m w) = sessions_ok w"
  by (simp add: sessions_ok_def)

lemma sessions_ok_replyBold [simp]: "sessions_ok (replyBold t kb w) = sessions_ok w"
  by (simp add: sessions_ok_def)

lemma sessions_ok_session_or_empty:
  "sessions_ok w \<Longrightarrow> rows_with_dateStr (session_or_empty w c)"
  by (auto simp: sessions_ok_def session_or_empty_def rows_with_dateStr_def empty_session_def
      split: option.split)

lemma sessions_ok_getSession:
  "sessions_ok w \<Longrightarrow> getSession w c = Some s \<Longrightarrow> rows_with_dateStr s"
  by (simp add: sessions_ok_def)

lemma rows_with_dateStr_updates [simp]:
  "rows_with_dateStr (s\<lparr>step := a\<rparr>) = rows_with_dateStr s"
  "rows_with_dateStr (s\<lparr>mode := b\<rparr>) = rows_with_dateStr s"
  "rows_with_dateStr (s\<lparr>connectSheet := d\<rparr>) = rows_with_dateStr s"
  "rows_with_dateStr (s\<lparr>sheetId := e\<rparr>) = rows_with_dateStr s"
  "rows_with_dateStr (s\<lparr>email := f\<rparr>) = rows_with_dateStr s"
  "rows_with_dateStr (s\<lparr>selectedTeam := g\<rparr>) = rows_with_dateStr s"
  "rows_with_dateStr (s\<lparr>rows := Some rs, dateStr := Some ds\<rparr>)"
  "rows_with_dateStr empty_session"
  by (simp_all add: rows_with_dateStr_def empty_session_def)

lemma sessions_http:
  "sessions (db (snd (snd (http E v rq j w)))) = sessions (db w)"
  by (simp add: http_def Let_def split: prod.split http_result.split)

lemma sessions_ok_http: "sessions_ok (snd (snd (http E v rq j w))) = sessions_ok w"
  by (simp add: sessions_ok_def getSession_def sessions_http)

lemma sessions_http_eq:
  "http E v rq j w = (r, j', w') \<Longrightarrow> sessions (db w') = sessions (db w)"
  using sessions_http [of E v rq j w] by simp

lemma sessions_ensureLoggedIn:
  "sessions (db (snd (snd (ensureLoggedIn E c em pw j w)))) = sessions (db w)"
proof -
  obtain r1 j1 w1 where h1: "http E (\<lambda>s. s = 200) GetDashboard j w = (r1, j1, w1)"
    by (cases "http E (\<lambda>s. s = 200) GetDashboard j w")
  note l1 = sessions_http_eq [OF h1]
  show ?thesis
  proof (cases r1)
    case (Inr probe)
    with h1 l1 show ?thesis by (simp add: ensureLoggedIn_def)
  next
    case (Inl e)
    obtain r2 j2 w2 where h2: "http E (\<lambda>s. s = 200) GetLogin j1 w1 = (r2, j2, w2)"
      by (cases "http E (\<lambda>s. s = 200) GetLogin j1 w1")
    note l2 = sessions_http_eq [OF h2]
    show ?thesis
    proof (cases r2)
      case e2: (Inl e')
      with Inl h1 h2 l1 l2 show ?thesis by (simp add: ensureLoggedIn_def)
    next
      case (Inr page)
      obtain st body where pg: "page = (st, body)" by (cases page)
      show ?thesis
      proof (cases "extract_csrf body")
        case None
        with Inl Inr pg h1 h2 l1 l2 show ?thesis by (simp add: ensureLoggedIn_def)
      next
        case (Some csrf)
        obtain r3 j3 w3 where
          h3: "http E (\<lambda>s. s \<in> set [302, 303, 200]) (PostLogin csrf em pw) j2 w2 = (r3, j3, w3)"
          by (cases "http E (\<lambda>s. s \<in> set [302, 303, 200]) (PostLogin csrf em pw) j2 w2")
        note l3 = sessions_http_eq [OF h3]
        from Inl Inr pg Some h1 h2 h3 l1 l2 l3 show ?thesis
          by (cases r3) (auto simp: ensureLoggedIn_def saveCookies_def)
      qed
    qed
  qed
qed

lemma sessions_downloadFlyfoneReport:
  "sessions (db (snd (downloadFlyfoneReport E c ds em pw j w))) = sessions (db w)"
proof -
  obtain r1 j1 w1 where e: "ensureLoggedIn E c em pw j w = (r1, j1, w1)"
    by (cases "ensureLoggedIn E c em pw j w")
  from sessions_ensureLoggedIn [of E c em pw j w] e
  have l1: "sessions (db w1) = sessions (db w)" by simp
  show ?thesis
  proof (cases r1)
    case (Some err)
    with e l1 show ?thesis by (simp add: downloadFlyfoneReport_def)
  next
    case None
    obtain r2 j2 w2 where h: "http E (\<lambda>s. 200 \<le> s \<and> s < 300) (GetExport ds) j1 w1 = (r2, j2, w2)"
      by (cases "http E (\<lambda>s. 200 \<le> s \<and> s < 300) (GetExport ds) j1 w1")
    from sessions_http_eq [OF h] l1 have "sessions (db w2) = sessions (db w)" by simp
    with None e h show ?thesis
      by (cases r2) (auto simp: downloadFlyfoneReport_def)
  qed
qed

lemma sessions_ok_ensureLoggedIn:
  "ensureLoggedIn E c em pw j w = (r, j', w') \<Longrightarrow> sessions_ok w \<Longrightarrow> sessions_ok w'"
  using sessions_ensureLoggedIn [of E c em pw j w] by (auto intro: sessions_ok_same)

lemma sessions_ok_downloadFlyfoneReport:
  "downloadFlyfoneReport E c ds em pw j w = (r, w') \<Longrightarrow> sessions_ok w \<Longrightarrow> sessions_ok w'"
  using sessions_downloadFlyfoneReport [of E c ds em pw j w] by (auto intro: sessions_ok_same)

lemma sessions_writeToSheet:
  "sessions (db (snd (writeToSheet E c sid vs ow w))) = sessions (db w)"
  by (simp add: writeToSheet_def sheets_call_api_def split: option.split)

lemma sessions_ok_writeToSheet:
  "writeToSheet E c sid vs ow w = (r, w') \<Longrightarrow> sessions_ok w \<Longrightarrow> sessions_ok w'"
  using sessions_writeToSheet [of E c sid vs ow w] by (auto intro: sessions_ok_same)


lemma sessions_ok_other_tables [simp]:
  "sessions_ok (deleteFlyfoneCreds c w) = sessions_ok w"
  "sessions_ok (saveFlyfoneCreds c e p w) = sessions_ok w"
  "sessions_ok (saveRefreshToken c t w) = sessions_ok w"
  "sessions_ok (deleteRefreshToken c w) = sessions_ok w"
  "sessions_ok (saveSheet c i w) = sessions_ok w"
  "sessions_ok (deleteSheet c w) = sessions_ok w"
  "sessions_ok (saveCookies c j w) = sessions_ok w"
  "sessions_ok (removeAllCookies c w) = sessions_ok w"
  by (simp_all add: sessions_ok_def getSession_def deleteFlyfoneCreds_def saveFlyfoneCreds_def
      saveRefreshToken_def deleteRefreshToken_def saveSheet_def deleteSheet_def saveCookies_def
      removeAllCookies_def)

lemma getSession_other_tables [simp]:
  "getSession (saveSheet c i w) c' = getSession w c'"
  "getSession (saveFlyfoneCreds c e p w) c' = getSession w c'"
  by (simp_all add: getSession_def saveSheet_def saveFlyfoneCreds_def)

lemmas sessions_ok_intros =
  sessions_ok_saveSession sessions_ok_deleteSession sessions_ok_session_or_empty

lemma ok_cmd_start: "sessions_ok w \<Longrightarrow> sessions_ok (snd (cmd_start c w))"
  by (auto simp: cmd_start_def intro!: sessions_ok_intros split: option.split)

lemma ok_cb_linkSheet_yes: "sessions_ok w \<Longrightarrow> sessions_ok (snd (cb_linkSheet_yes c w))"
  by (auto simp: cb_linkSheet_yes_def intro!: sessions_ok_intros)

lemma ok_cb_linkSheet_no: "sessions_ok w \<Longrightarrow> sessions_ok (snd (cb_linkSheet_no c w))"
  by (auto simp: cb_linkSheet_no_def intro!: sessions_ok_intros)

lemma ok_cmd_mode: "sessions_ok w \<Longrightarrow> sessions_ok (snd (cmd_mode msg c w))"
  by (auto simp: cmd_mode_def Let_def intro!: sessions_ok_intros split: list.split)

lemma ok_cmd_logout: "sessions_ok w \<Longrightarrow> sessions_ok (snd (cmd_logout c w))"
  by (auto simp: cmd_logout_def Let_def intro!: sessions_ok_intros)

lemma ok_cmd_sheet: "sessions_ok w \<Longrightarrow> sessions_ok (snd (cmd_sheet E msg c w))"
  by (auto simp: cmd_sheet_def Let_def intro!: sessions_ok_intros split: option.split)

lemma ok_beginSheetFlow: "sessions_ok w \<Longrightarrow> sessions_ok (snd (beginSheetFlow c w))"
  by (auto simp: beginSheetFlow_def Let_def intro!: sessions_ok_intros
      dest: sessions_ok_getSession split: option.split)

lemma ok_beginChatFlow: "sessions_ok w \<Longrightarrow> sessions_ok (snd (beginChatFlow c w))"
  by (auto simp: beginChatFlow_def Let_def intro!: sessions_ok_intros
      dest: sessions_ok_getSession split: option.split)

lemma ok_cmd_fetch: "sessions_ok w \<Longrightarrow> sessions_ok (snd (cmd_fetch c w))"
  by (simp add: cmd_fetch_def Let_def ok_beginSheetFlow ok_beginChatFlow)

lemma ok_withSessionGuard:
  assumes "\<And>w. sessions_ok w \<Longrightarrow> sessions_ok (snd (handler c w))" and "sessions_ok w"
  shows "sessions_ok (snd (withSessionGuard handler c w))"
  using assms by (auto simp: withSessionGuard_def intro!: sessions_ok_intros split: option.split)

lemma ok_chat_team_handler: "sessions_ok w \<Longrightarrow> sessions_ok (snd (chat_team_handler team c w))"
  by (auto simp: chat_team_handler_def Let_def intro!: sessions_ok_intros split: option.split)

lemma ok_chat_agent_handler: "sessions_ok w \<Longrightarrow> sessions_ok (snd (chat_agent_handler team agent c w))"
  by (auto simp: chat_agent_handler_def Let_def split: option.split)

lemma ok_team_handler: "sessions_ok w \<Longrightarrow> sessions_ok (snd (team_handler c w))"
  by (auto simp: team_handler_def Let_def split: option.split)

lemma ok_agent_handler: "sessions_ok w \<Longrightarrow> sessions_ok (snd (agent_handler msg c w))"
  by (auto simp: agent_handler_def Let_def split: option.split sum.split)

lemma ok_team_choice_handler: "sessions_ok w \<Longrightarrow> sessions_ok (snd (team_choice_handler key c w))"
  by (auto simp: team_choice_handler_def intro!: sessions_ok_intros)

lemma ok_oauth2callback: "sessions_ok w \<Longrightarrow> sessions_ok (snd (oauth2callback E code c w))"
  by (auto simp: oauth2callback_def split: sum.split option.split)

lemma ok_startFetchFlow:
  assumes "sessions_ok w"
  shows "sessions_ok (snd (startFetchFlow E em pass sid dateArg c w))"
proof -
  let ?ds = "if dateArg \<noteq> [] then dateArg else default_date E"
  obtain r w1 where d: "downloadFlyfoneReport E c ?ds em pass (loadCookies w c) w = (r, w1)"
    by (cases "downloadFlyfoneReport E c ?ds em pass (loadCookies w c) w")
  from sessions_ok_downloadFlyfoneReport [OF d assms] have ok1: "sessions_ok w1" .
  show ?thesis
  proof (cases r)
    case (Inl err)
    with d ok1 show ?thesis by (simp add: startFetchFlow_def Let_def)
  next
    case (Inr rs)
    have "sessions_ok (saveSession c
        ((session_or_empty w1 c)\<lparr>rows := Some rs, dateStr := Some ?ds, sheetId := sid\<rparr>) w1)"
      using ok1 by (intro sessions_ok_saveSession) simp_all
    with Inr d ok1 show ?thesis by (simp add: startFetchFlow_def Let_def)
  qed
qed

lemma ok_calendar_sheet: "sessions_ok w \<Longrightarrow> sessions_ok (snd (calendar_sheet E date c w))"
  by (simp add: calendar_sheet_def Let_def ok_startFetchFlow split: option.split)

lemma ok_calendar_chat:
  assumes "sessions_ok w"
  shows "sessions_ok (snd (calendar_chat E date c w))"
proof -
  let ?ds = "format_ymd E date"
  let ?w1 = "replyBold (''Fetching calls for '' @ ?ds @ ellipsis) NoKeyboard w"
  have ok1: "sessions_ok ?w1" using assms by simp
  show ?thesis
  proof (cases "getFlyfoneCreds ?w1 c")
    case None
    with ok1 show ?thesis by (simp add: calendar_chat_def Let_def)
  next
    case (Some creds)
    obtain r w2 where d: "downloadFlyfoneReport E c ?ds (cred_email creds) (cred_pass creds)
        (loadCookies ?w1 c) ?w1 = (r, w2)"
      by (cases "downloadFlyfoneReport E c ?ds (cred_email creds) (cred_pass creds)
        (loadCookies ?w1 c) ?w1")
    from sessions_ok_downloadFlyfoneReport [OF d ok1] have ok2: "sessions_ok w2" .
    show ?thesis
    proof (cases r)
      case (Inl err)
      with Some d ok2 show ?thesis by (simp add: calendar_chat_def Let_def)
    next
      case (Inr rs)
      have "sessions_ok (saveSession c ((session_or_empty w c)\<lparr>rows := Some rs, dateStr := Some ?ds\<rparr>) w2)"
        using ok2 by (intro sessions_ok_saveSession) simp_all
      with Inr Some d show ?thesis by (simp add: calendar_chat_def Let_def)
    qed
  qed
qed

lemma ok_on_calendar_date: "sessions_ok w \<Longrightarrow> sessions_ok (snd (on_calendar_date E date c w))"
  by (simp add: on_calendar_date_def ok_calendar_sheet ok_calendar_chat split: option.split)

lemma sessions_summary_handler:
  "sessions (db (snd (summary_handler E msg c w))) = sessions (db w)"
proof -
  have s: "sessions (db (replyBold t kb w')) = sessions (db w')" for t kb and w' :: "'a world"
    by (simp add: replyBold_def send_def)
  have s': "sessions (db (send m w')) = sessions (db w')" for m and w' :: "'a world"
    by (simp add: send_def)
  show ?thesis
  proof (cases "drop 1 (split_ws msg)")
    case Nil
    then show ?thesis by (simp add: summary_handler_def s')
  next
    case (Cons rawDate rest)
    show ?thesis
    proof (cases rest)
      case Nil
      with Cons show ?thesis by (simp add: summary_handler_def s')
    next
      case (Cons t ts)
      note parts = \<open>drop 1 (split_ws msg) = rawDate # rest\<close> Cons
      show ?thesis
      proof (cases "parseDateInput E rawDate")
        case None
        with parts show ?thesis by (simp add: summary_handler_def Let_def s)
      next
        case (Some d)
        show ?thesis
        proof (cases "getFlyfoneCreds w c")
          case None
          with parts Some show ?thesis by (simp add: summary_handler_def Let_def s)
        next
          case creds: (Some creds)
          let ?w1 = "replyBold (''Loading summary for '' @ join_with '' '' (t # ts) @ '' on ''
                       @ format_ymd E d @ ellipsis) NoKeyboard w"
          obtain r w2 where dl: "downloadFlyfoneReport E c (format_ymd E d) (cred_email creds)
              (cred_pass creds) (loadCookies ?w1 c) ?w1 = (r, w2)"
            by (cases "downloadFlyfoneReport E c (format_ymd E d) (cred_email creds)
              (cred_pass creds) (loadCookies ?w1 c) ?w1")
          from sessions_downloadFlyfoneReport [of E c "format_ymd E d" "cred_email creds"
              "cred_pass creds" "loadCookies ?w1 c" ?w1] dl
          have "sessions (db w2) = sessions (db w)" by (simp add: s)
          with parts Some creds dl show ?thesis
            by (cases r) (simp_all add: summary_handler_def Let_def s s')
        qed
      qed
    qed
  qed
qed

lemma ok_summary_handler: "sessions_ok w \<Longrightarrow> sessions_ok (snd (summary_handler E msg c w))"
  using sessions_summary_handler [of E msg c w] by (auto intro: sessions_ok_same)

lemma ok_on_text:
  assumes "sessions_ok w"
  shows "sessions_ok (snd (on_text E msg c w))"
proof (cases "getSession w c")
  case None
  with assms show ?thesis by (simp add: on_text_def)
next
  case (Some sess)
  from sessions_ok_getSession [OF assms Some] have rs: "rows_with_dateStr sess" .
  obtain r j w1 where e: "ensureLoggedIn E c (email sess) (trim msg) (loadCookies w c) w = (r, j, w1)"
    by (cases "ensureLoggedIn E c (email sess) (trim msg) (loadCookies w c) w")
  from sessions_ok_ensureLoggedIn [OF e assms] have ok1: "sessions_ok w1" .
  show ?thesis
    using Some assms rs e ok1
    by (cases r) (auto simp: on_text_def Let_def intro!: sessions_ok_intros)
qed

lemma ok_sheetMode_handler:
  assumes "sessions_ok w"
  shows "sessions_ok (snd (sheetMode_handler E m c w))"
proof (cases "getSession w c")
  case None
  with assms show ?thesis by (simp add: sheetMode_handler_def)
next
  case (Some sess)
  show ?thesis
  proof (cases "rows sess")
    case None
    with Some assms show ?thesis by (simp add: sheetMode_handler_def)
  next
    case rs: (Some rs)
    obtain r w1 where wr: "writeToSheet E c (sheetId sess) (sheet_output rs (selectedTeam sess))
        (m = ''overwrite'') w = (r, w1)"
      by (cases "writeToSheet E c (sheetId sess) (sheet_output rs (selectedTeam sess))
        (m = ''overwrite'') w")
    from sessions_ok_writeToSheet [OF wr assms] have "sessions_ok w1" .
    with Some rs wr show ?thesis
      by (cases r) (simp_all add: sheetMode_handler_def Let_def)
  qed
qed

lemma ok_handle: "sessions_ok w \<Longrightarrow> sessions_ok (snd (handle E ev c w))"
  by (cases ev)
    (simp_all add: ok_cmd_start ok_cmd_mode ok_cmd_logout ok_cmd_sheet ok_cmd_fetch
      ok_cb_linkSheet_yes ok_cb_linkSheet_no ok_on_calendar_date ok_on_text ok_oauth2callback
      ok_withSessionGuard ok_team_handler ok_agent_handler ok_summary_handler
      ok_chat_team_handler ok_chat_agent_handler ok_team_choice_handler ok_sheetMode_handler)

lemma ok_run: "sessions_ok w \<Longrightarrow> sessions_ok (run evs w)"
proof (induction evs arbitrary: w)
  case Nil
  then show ?case by simp
next
  case (Cons x evs)
  obtain E c ev where x: "x = (E, c, ev)" by (cases x)
  from Cons.prems have "sessions_ok (snd (handle E ev c w))" by (rule ok_handle)
  with Cons.IH x show ?case by simp
qed

text \<open>
  C6. In every session value that the handlers persist, \<open>rows\<close> and \<open>dateStr\<close> are both
  present or both absent: if this holds of the sessions stored at the start (in particular
  when none is stored), it holds of every session stored after any sequence of events,
  whatever the portal, the parsers and the spreadsheet API answer.
\<close>

theorem rows_and_dateStr_set_together:
  assumes "\<forall>c s. getSession w0 c = Some s \<longrightarrow> (rows s = None) = (dateStr s = None)"
    and "getSession (run evs w0) c = Some s"
  shows "(rows s = None) = (dateStr s = None)"
proof -
  from assms(1) have "sessions_ok w0"
    by (simp add: sessions_ok_def rows_with_dateStr_def)
  then have "sessions_ok (run evs w0)" by (rule ok_run)
  with assms(2) show ?thesis
    by (simp add: sessions_ok_def rows_with_dateStr_def)
qed

theorem rows_and_dateStr_set_together_witness:
  "getSession (run chat_flow demo_world) 7 = Some chat_flow_session
   \<and> rows chat_flow_session = Some demo_rows
   \<and> dateStr chat_flow_session = Some ''2025-07-01''
   \<and> (rows chat_flow_session = None) = (dateStr chat_flow_session = None)"
proof -
  have init: "\<forall>c s. getSession demo_world c = Some s \<longrightarrow> (rows s = None) = (dateStr s = None)"
    by (simp add: getSession_def demo_world_def empty_store_def)
  have reached: "getSession (run chat_flow demo_world) 7 = Some chat_flow_session"
    by code_simp
  have both: "(rows chat_flow_session = None) = (dateStr chat_flow_session = None)"
    by (rule rows_and_dateStr_set_together [OF init reached])
  show ?thesis
    using reached both by (simp add: chat_flow_session_def)
qed

end
